(* ===== verification/Prelude.thy ===== *)
theory Prelude
  imports Complex_Main
begin

text \<open>
  Shared vocabulary of the development. Python exceptions raised by the script
  \<open>src/app.py\<close> (or by the library calls it makes) are the constructors of
  \<open>py_exc\<close>; a computation that may raise returns \<open>'a result\<close>, with \<open>Inl\<close> the
  exception. \<open>rbind\<close> sequences two such computations as Python statements do (the
  first exception propagates), \<open>map_result\<close> is a Python \<open>for\<close> loop that appends one
  value per element and stops at the first exception, \<open>py_index\<close> is list
  subscription with its \<open>IndexError\<close>, and \<open>dict_of\<close> is \<open>dict(zip(keys, values))\<close>
  (a later duplicate key overwrites an earlier one).
  The lemmas are the generic facts about these combinators that the component theories
  use; the ones that rewrite are declared \<open>[simp]\<close> or collected in \<open>result_simps\<close>.
\<close>

named_theorems result_simps "rewrite rules for computations in the result type"

datatype py_exc =
    KeyError "string option"
  | TypeError
  | RuntimeError
  | IndexError
  | ValueError
  | NameError string
  | FileNotFoundError string

type_synonym 'a result = "py_exc + 'a"

definition rbind :: "'a result \<Rightarrow> ('a \<Rightarrow> 'b result) \<Rightarrow> 'b result" where
  "rbind r f = (case r of Inl e \<Rightarrow> Inl e | Inr x \<Rightarrow> f x)"

fun map_result :: "('a \<Rightarrow> 'b result) \<Rightarrow> 'a list \<Rightarrow> 'b list result" where
  "map_result f [] = Inr []"
| "map_result f (x # xs) =
     (case f x of
        Inl e \<Rightarrow> Inl e
      | Inr y \<Rightarrow> (case map_result f xs of Inl e \<Rightarrow> Inl e | Inr ys \<Rightarrow> Inr (y # ys)))"

definition py_index :: "'a list \<Rightarrow> nat \<Rightarrow> 'a result" where
  "py_index xs i = (if i < length xs then Inr (xs ! i) else Inl IndexError)"

definition dict_of :: "('k \<times> 'v) list \<Rightarrow> 'k \<rightharpoonup> 'v" where
  "dict_of kvs = fold (\<lambda>(k, v) m. m(k \<mapsto> v)) kvs Map.empty"

text \<open>
  Python's \<open>str()\<close> of a natural number and \<open>repr()\<close> of a string and of a list of
  strings, as f-strings print them. Characters are bytes: a byte from \<open>0x80\<close> up (part
  of a UTF-8 sequence) is printed as it is.
\<close>

fun py_str_nat :: "nat \<Rightarrow> string" where
  "py_str_nat n =
     (if n < 10 then [char_of (48 + n)] else py_str_nat (n div 10) @ [char_of (48 + n mod 10)])"

definition hex_digit :: "nat \<Rightarrow> char" where
  "hex_digit d = (if d < 10 then char_of (48 + d) else char_of (87 + d))"

definition py_quote :: "string \<Rightarrow> char" where
  "py_quote s = (if CHR 0x27 \<in> set s \<and> CHR 0x22 \<notin> set s then CHR 0x22 else CHR 0x27)"

definition py_escape :: "char \<Rightarrow> char \<Rightarrow> string" where
  "py_escape q c =
     (let n = (of_char c :: nat) in
      if c = q \<or> c = CHR 0x5C then [CHR 0x5C, c]
      else if c = CHR 0x09 then [CHR 0x5C, CHR ''t'']
      else if c = CHR 0x0A then [CHR 0x5C, CHR ''n'']
      else if c = CHR 0x0D then [CHR 0x5C, CHR ''r'']
      else if n < 32 \<or> n = 127 then [CHR 0x5C, CHR ''x'', hex_digit (n div 16), hex_digit (n mod 16)]
      else [c])"

definition py_repr_str :: "string \<Rightarrow> string" where
  "py_repr_str s = (let q = py_quote s in q # concat (map (py_escape q) s) @ [q])"

fun py_join :: "string \<Rightarrow> string list \<Rightarrow> string" where
  "py_join sep [] = []"
| "py_join sep [x] = x"
| "py_join sep (x # y # ys) = x @ sep @ py_join sep (y # ys)"

definition py_repr_list :: "string list \<Rightarrow> string" where
  "py_repr_list xs = ''['' @ py_join '', '' (map py_repr_str xs) @ '']''"

lemma rbind_Inl [simp, result_simps]: "rbind (Inl e) f = Inl e"
  by (simp add: rbind_def)

lemma rbind_Inr [simp, result_simps]: "rbind (Inr x) f = f x"
  by (simp add: rbind_def)

lemma rbind_eq_Inr_iff [result_simps]:
  "rbind r f = Inr y \<longleftrightarrow> (\<exists>x. r = Inr x \<and> f x = Inr y)"
  by (cases r) (simp_all add: rbind_def)

lemma rbind_eq_Inl_iff [result_simps]:
  "rbind r f = Inl e \<longleftrightarrow> r = Inl e \<or> (\<exists>x. r = Inr x \<and> f x = Inl e)"
  by (cases r) (simp_all add: rbind_def)

lemma map_sum_id_eq_Inr [result_simps]:
  "map_sum id f r = Inr y \<longleftrightarrow> (\<exists>x. r = Inr x \<and> y = f x)"
  by (cases r) auto

lemma py_index_in_range [simp, result_simps]: "i < length xs \<Longrightarrow> py_index xs i = Inr (xs ! i)"
  by (simp add: py_index_def)

lemma py_index_out_of_range [simp, result_simps]:
  "\<not> i < length xs \<Longrightarrow> py_index xs i = Inl IndexError"
  by (simp add: py_index_def)

text \<open>The loop succeeds exactly when every element succeeds, element by element.\<close>

lemma map_result_Inr_D:
  "map_result f xs = Inr ys \<Longrightarrow> list_all2 (\<lambda>x y. f x = Inr y) xs ys"
  by (induction xs arbitrary: ys) (auto split: sum.splits)

lemma map_result_Inr_I:
  "list_all2 (\<lambda>x y. f x = Inr y) xs ys \<Longrightarrow> map_result f xs = Inr ys"
  by (induction xs ys rule: list_all2_induct) auto

lemma map_result_Inr_iff:
  "map_result f xs = Inr ys \<longleftrightarrow> list_all2 (\<lambda>x y. f x = Inr y) xs ys"
  using map_result_Inr_D map_result_Inr_I by blast

lemma map_result_length: "map_result f xs = Inr ys \<Longrightarrow> length ys = length xs"
  by (simp add: map_result_Inr_iff list_all2_lengthD)

lemma map_result_nth:
  "map_result f xs = Inr ys \<Longrightarrow> i < length xs \<Longrightarrow> f (xs ! i) = Inr (ys ! i)"
  by (simp add: map_result_Inr_iff list_all2_conv_all_nth)

lemma map_result_total:
  "(\<And>x. x \<in> set xs \<Longrightarrow> f x = Inr (g x)) \<Longrightarrow> map_result f xs = Inr (map g xs)"
  by (induction xs) auto

lemma map_result_map [simp]: "map_result (\<lambda>x. Inr (g x)) xs = Inr (map g xs)"
  by (rule map_result_total) simp

text \<open>A loop that raises raised at some element, and at the first one that raises.\<close>

lemma map_result_Inl:
  "map_result f xs = Inl e \<Longrightarrow>
     \<exists>i < length xs. f (xs ! i) = Inl e \<and> (\<forall>j < i. \<exists>y. f (xs ! j) = Inr y)"
proof (induction xs)
  case Nil
  then show ?case by simp
next
  case (Cons x xs)
  show ?case
  proof (cases "f x")
    case (Inl e')
    with Cons.prems show ?thesis by fastforce
  next
    case (Inr y)
    with Cons.prems have "map_result f xs = Inl e"
      by (auto split: sum.splits)
    then obtain i where "i < length xs" "f (xs ! i) = Inl e"
        "\<forall>j < i. \<exists>y. f (xs ! j) = Inr y"
      using Cons.IH by blast
    with Inr show ?thesis
      by (intro exI [of _ "Suc i"]) (auto simp: less_Suc_eq_0_disj)
  qed
qed

lemma map_result_Inl_iff_exists:
  "(\<exists>e. map_result f xs = Inl e) \<longleftrightarrow> (\<exists>x \<in> set xs. \<exists>e. f x = Inl e)"
  by (induction xs) (auto split: sum.splits)

lemma map_result_Inl_only:
  "map_result f xs = Inl e \<Longrightarrow> (\<And>x e'. x \<in> set xs \<Longrightarrow> f x = Inl e' \<Longrightarrow> e' = E) \<Longrightarrow> e = E"
  by (induction xs) (auto split: sum.splits)

lemma map_result_Inr_Nil: "map_result f xs = Inr [] \<longleftrightarrow> xs = []"
  by (cases xs) (auto split: sum.splits)

lemma map_result_append:
  "map_result f (xs @ ys) = rbind (map_result f xs) (\<lambda>as. rbind (map_result f ys) (\<lambda>bs. Inr (as @ bs)))"
  by (induction xs) (auto simp: rbind_def split: sum.splits)

text \<open>\<open>dict(zip(ks, vs))\<close>: the last binding of a key wins.\<close>

lemma dict_of_fold_upd:
  "fold (\<lambda>(k, v) m. m(k \<mapsto> v)) kvs m = m ++ map_of (rev kvs)"
  by (induction kvs arbitrary: m) (auto simp: map_add_def fun_eq_iff split: option.splits)

lemma dict_of_eq_map_of_rev: "dict_of kvs = map_of (rev kvs)"
  by (simp add: dict_of_def dict_of_fold_upd)

lemma dom_dict_of [simp]: "dom (dict_of kvs) = fst ` set kvs"
  by (simp add: dict_of_eq_map_of_rev dom_map_of_conv_image_fst)

lemma dict_of_distinct: "distinct (map fst kvs) \<Longrightarrow> dict_of kvs = map_of kvs"
  by (simp add: dict_of_eq_map_of_rev map_of_inject_set rev_map [symmetric])

text \<open>Subscripting the zip of distinct keys: the value at the key's position, if any.\<close>

lemma map_of_zip_distinct_nth:
  "distinct ks \<Longrightarrow> i < length ks \<Longrightarrow>
     map_of (zip ks vs) (ks ! i) = (if i < length vs then Some (vs ! i) else None)"
proof (induction ks arbitrary: vs i)
  case Nil
  then show ?case by simp
next
  case (Cons k ks)
  show ?case
  proof (cases vs)
    case Nil
    then show ?thesis by simp
  next
    case (Cons v vs')
    with Cons.prems Cons.IH show ?thesis
      by (cases i) (auto simp: nth_mem)
  qed
qed

lemma map_result_map_arg: "map_result f (map h xs) = map_result (\<lambda>x. f (h x)) xs"
  by (induction xs) (simp_all split: sum.split)

lemma map_result_Inl_everywhere:
  "xs \<noteq> [] \<Longrightarrow> (\<And>x. x \<in> set xs \<Longrightarrow> f x = Inl e) \<Longrightarrow> map_result f xs = Inl e"
  by (cases xs) auto

lemma distinct_nth_notin_drop:
  "distinct xs \<Longrightarrow> i < n \<Longrightarrow> i < length xs \<Longrightarrow> xs ! i \<notin> set (drop n xs)"
proof -
  assume d: "distinct xs" and i: "i < n" "i < length xs"
  then have "xs ! i \<in> set (take n xs)"
    by (auto simp: in_set_conv_nth intro!: exI [of _ i])
  with d show ?thesis
    using set_take_disj_set_drop_if_distinct [of xs n n] by blast
qed

lemma map_filter_append: "List.map_filter f (xs @ ys) = List.map_filter f xs @ List.map_filter f ys"
  by (induction xs) (simp_all split: option.split)
end
