(* ===== verification/Library.thy ===== *)
theory Library
  imports Prelude
begin

text \<open>
  The library loader, \<open>load_prompt_library\<close> (\<open>src/app.py\<close>, lines 9--20), and the
  part of \<open>csv.DictReader\<close> it relies on. The input is the sequence of records that
  \<open>csv.reader\<close> yields for the file (each a list of field strings); the tokenisation of
  the file into records and the file I/O are not modelled.
  \<^item> \<open>dict_reader\<close> is \<open>DictReader\<close>'s iteration: the first record is the header
    (\<open>fieldnames\<close>), blank records are skipped, and each later record becomes a dict by
    \<open>dict_row\<close>: \<open>dict(zip(fieldnames, row))\<close>, the surplus of a long row under the
    key \<open>None\<close> (\<open>restkey\<close>), and \<open>None\<close> (\<open>restval\<close>) for each field a short row
    lacks.
  \<^item> A Python value read from such a dict is a \<open>pyval\<close>: a string, \<open>None\<close> or a list of
    strings. A prompt entry (the dict built in the loop body) is the record
    \<open>prompt_entry\<close> with the four keys of the source.
  \<^item> \<open>load_row\<close> is the loop body: four subscriptions in source order, the first missing
    key raising \<open>KeyError\<close>; \<open>load_prompt_library\<close> is the loop, stopping at the
    first exception.
  The lemmas characterise when loading raises, what each entry holds (by header name,
  whatever the column order), the round trip from a table written under any header
  holding the four names, and the inputs the code accepts although the spec rejects them
  (an empty file, short rows).
\<close>

datatype pyval = PStr string | PNone | PList "string list"

type_synonym row_dict = "string option \<rightharpoonup> pyval"

record prompt_entry =
  question :: pyval
  method_name :: pyval
  explanation :: pyval
  code :: pyval

definition dict_row :: "string list \<Rightarrow> string list \<Rightarrow> row_dict" where
  "dict_row fieldnames row =
     (let d = dict_of (zip (map Some fieldnames) (map PStr row));
          lf = length fieldnames;
          lr = length row
      in if lf < lr then d(None \<mapsto> PList (drop lf row))
         else if lr < lf then fold (\<lambda>key d. d(Some key \<mapsto> PNone)) (drop lr fieldnames) d
         else d)"

fun dict_reader :: "string list list \<Rightarrow> row_dict list" where
  "dict_reader [] = []"
| "dict_reader (fieldnames # rows) = map (dict_row fieldnames) (filter (\<lambda>r. r \<noteq> []) rows)"

definition row_get :: "row_dict \<Rightarrow> string \<Rightarrow> pyval result" where
  "row_get d k = (case d (Some k) of None \<Rightarrow> Inl (KeyError (Some k)) | Some v \<Rightarrow> Inr v)"

definition load_row :: "row_dict \<Rightarrow> prompt_entry result" where
  "load_row row =
     rbind (row_get row ''question'') (\<lambda>q.
     rbind (row_get row ''method'') (\<lambda>m.
     rbind (row_get row ''explanation'') (\<lambda>e.
     rbind (row_get row ''code'') (\<lambda>c.
     Inr \<lparr>question = q, method_name = m, explanation = e, code = c\<rparr>))))"

definition load_prompt_library :: "string list list \<Rightarrow> prompt_entry list result" where
  "load_prompt_library records = map_result load_row (dict_reader records)"

definition required_fields :: "string list" where
  "required_fields = [''question'', ''method'', ''explanation'', ''code'']"

text \<open>
  A source record that supplies its fields by name, and the entry it should load as: the
  abstract view of the loader's contract.
\<close>

definition entry_of_source :: "(string \<Rightarrow> string) \<Rightarrow> prompt_entry" where
  "entry_of_source src =
     \<lparr>question = PStr (src ''question''), method_name = PStr (src ''method''),
      explanation = PStr (src ''explanation''), code = PStr (src ''code'')\<rparr>"

text \<open>Subscription \<open>match[key]\<close> of a loaded entry (a dict with the four keys).\<close>

definition entry_get :: "prompt_entry \<Rightarrow> string \<Rightarrow> pyval result" where
  "entry_get e k =
     (if k = ''question'' then Inr (question e)
      else if k = ''method'' then Inr (method_name e)
      else if k = ''explanation'' then Inr (explanation e)
      else if k = ''code'' then Inr (code e)
      else Inl (KeyError (Some k)))"

text \<open>
  The values the fields of an entry can hold: a string, or \<open>None\<close> from a short record;
  never the list DictReader files the surplus of a long record under (the key \<open>None\<close>).
\<close>

fun str_or_none :: "pyval \<Rightarrow> bool" where
  "str_or_none (PStr s) = True"
| "str_or_none PNone = True"
| "str_or_none (PList xs) = False"

definition entry_typed :: "prompt_entry \<Rightarrow> bool" where
  "entry_typed e \<longleftrightarrow>
     str_or_none (question e) \<and> str_or_none (method_name e) \<and> str_or_none (explanation e) \<and>
     str_or_none (code e)"


lemma fold_restval_apply:
  "fold (\<lambda>key d. d(Some key \<mapsto> v)) ks d x = (if x \<in> Some ` set ks then Some v else d x)"
  by (induction ks arbitrary: d) auto

lemma dict_row_zip_dom:
  "dict_of (zip (map Some hdr) (map PStr r)) (Some k) = None \<longleftrightarrow> k \<notin> set (take (length r) hdr)"
proof -
  have "fst ` set (zip (map Some hdr) (map PStr r)) = Some ` set (take (length r) hdr)"
    by (simp only: set_map [symmetric] map_fst_zip_take) (simp add: take_map min_def)
  moreover have "dict_of (zip (map Some hdr) (map PStr r)) (Some k) = None \<longleftrightarrow>
      Some k \<notin> dom (dict_of (zip (map Some hdr) (map PStr r)))"
    by (simp only: domIff not_not)
  ultimately show ?thesis
    by (simp only: dom_dict_of) blast
qed

lemma dict_row_None_iff: "dict_row hdr r (Some k) = None \<longleftrightarrow> k \<notin> set hdr"
proof -
  have split: "set hdr = set (take (length r) hdr) \<union> set (drop (length r) hdr)"
    by (metis append_take_drop_id set_append)
  consider (long) "length hdr < length r" | (short) "length r < length hdr"
    | (same) "length r = length hdr"
    by linarith
  then show ?thesis
  proof cases
    case long
    then show ?thesis by (simp add: dict_row_def Let_def dict_row_zip_dom)
  next
    case short
    then show ?thesis
      using split by (auto simp add: dict_row_def Let_def dict_row_zip_dom fold_restval_apply)
  next
    case same
    then show ?thesis by (simp add: dict_row_def Let_def dict_row_zip_dom)
  qed
qed

lemma dict_row_zip_nth:
  assumes "distinct hdr" and "i < length hdr"
  shows "dict_of (zip (map Some hdr) (map PStr r)) (Some (hdr ! i)) =
      (if i < length r then Some (PStr (r ! i)) else None)"
proof -
  have "distinct (map fst (zip (map Some hdr) (map PStr r)))"
    using assms(1) by (simp add: map_fst_zip_take distinct_map)
  then have "dict_of (zip (map Some hdr) (map PStr r)) = map_of (zip (map Some hdr) (map PStr r))"
    by (rule dict_of_distinct)
  moreover have "distinct (map Some hdr)"
    using assms(1) by (simp add: distinct_map)
  ultimately show ?thesis
    using assms(2) map_of_zip_distinct_nth [of "map Some hdr" i "map PStr r"] by simp
qed

lemma dict_row_nth:
  assumes "distinct hdr" and "i < length hdr"
  shows "dict_row hdr r (Some (hdr ! i)) = Some (if i < length r then PStr (r ! i) else PNone)"
proof (cases "i < length r")
  case True
  then have "hdr ! i \<notin> set (drop (length r) hdr)"
    using assms by (simp add: distinct_nth_notin_drop)
  then show ?thesis
    using True assms dict_row_zip_nth [OF assms, of r]
    by (auto simp: dict_row_def Let_def fold_restval_apply)
next
  case False
  then have "hdr ! i \<in> set (drop (length r) hdr)"
  proof -
    have "drop (length r) hdr ! (i - length r) = hdr ! i"
      using False assms(2) by simp
    moreover have "i - length r < length (drop (length r) hdr)"
      using False assms(2) by simp
    ultimately show ?thesis by (metis nth_mem)
  qed
  then show ?thesis
    using False assms dict_row_zip_nth [OF assms, of r]
    by (auto simp: dict_row_def Let_def fold_restval_apply)
qed

lemma load_row_Inr_iff:
  "load_row d = Inr e \<longleftrightarrow>
     d (Some ''question'') = Some (question e) \<and> d (Some ''method'') = Some (method_name e) \<and>
     d (Some ''explanation'') = Some (explanation e) \<and> d (Some ''code'') = Some (code e)"
  by (cases e) (auto simp: load_row_def row_get_def rbind_eq_Inr_iff split: option.splits)

lemma load_row_Inl_iff:
  "load_row d = Inl x \<longleftrightarrow>
     (\<exists>k. find (\<lambda>k. d (Some k) = None) required_fields = Some k \<and> x = KeyError (Some k))"
  by (auto simp: load_row_def row_get_def required_fields_def rbind_def split: option.splits)

lemma find_dict_row_None:
  "find (\<lambda>k. dict_row hdr r (Some k) = None) ks = find (\<lambda>k. k \<notin> set hdr) ks"
  by (simp add: dict_row_None_iff)

lemma dict_reader_nonempty:
  "(\<exists>r \<in> set rows. r \<noteq> []) \<Longrightarrow> dict_reader (hdr # rows) \<noteq> []"
  by (simp add: filter_empty_conv)

text \<open>
  C7. A header that lacks one of the four names makes the loader raise \<open>KeyError\<close> for the
  first missing name (in the order of the subscriptions in the loop body) as soon as the
  file has one non-blank data record.
\<close>

theorem load_prompt_library_missing_field:
  assumes "find (\<lambda>k. k \<notin> set hdr) required_fields = Some k"
    and "\<exists>r \<in> set rows. r \<noteq> []"
  shows "load_prompt_library (hdr # rows) = Inl (KeyError (Some k))"
proof -
  have "\<And>d. d \<in> set (dict_reader (hdr # rows)) \<Longrightarrow> load_row d = Inl (KeyError (Some k))"
    using assms(1) by (auto simp: load_row_Inl_iff find_dict_row_None)
  then show ?thesis
    unfolding load_prompt_library_def
    using dict_reader_nonempty [OF assms(2)] by (rule_tac map_result_Inl_everywhere) auto
qed

theorem load_prompt_library_missing_field_witness:
  "find (\<lambda>k. k \<notin> set [''question'', ''code'']) required_fields = Some ''method'' \<and>
   (\<exists>r \<in> set [[''q'', ''c'']]. r \<noteq> []) \<and>
   load_prompt_library ([''question'', ''code''] # [[''q'', ''c'']]) = Inl (KeyError (Some ''method''))"
  using load_prompt_library_missing_field [of "[''question'', ''code'']" "''method''" "[[''q'', ''c'']]"]
  by (simp add: required_fields_def)

lemma load_row_dict_row_complete:
  "set required_fields \<subseteq> set hdr \<Longrightarrow> \<exists>e. load_row (dict_row hdr r) = Inr e"
proof (cases "load_row (dict_row hdr r)")
  case (Inl x)
  then obtain k where "find (\<lambda>k. k \<notin> set hdr) required_fields = Some k"
    by (auto simp: load_row_Inl_iff find_dict_row_None)
  then have "k \<in> set required_fields" "k \<notin> set hdr"
    by (auto simp: find_Some_iff nth_mem)
  then show "set required_fields \<subseteq> set hdr \<Longrightarrow> ?thesis" by blast
qed simp

text \<open>
  C8. A header holding the four names makes loading succeed, whatever the data records:
  one entry per non-blank record.
\<close>

theorem load_prompt_library_complete_header:
  assumes "set required_fields \<subseteq> set hdr"
  shows "\<exists>es. load_prompt_library (hdr # rows) = Inr es \<and>
           length es = length (filter (\<lambda>r. r \<noteq> []) rows)"
proof -
  have "\<And>d. d \<in> set (dict_reader (hdr # rows)) \<Longrightarrow> \<exists>e. load_row d = Inr e"
    using assms load_row_dict_row_complete by auto
  then obtain g where "\<And>d. d \<in> set (dict_reader (hdr # rows)) \<Longrightarrow> load_row d = Inr (g d)"
    by metis
  then have "load_prompt_library (hdr # rows) = Inr (map g (dict_reader (hdr # rows)))"
    unfolding load_prompt_library_def by (rule map_result_total)
  then show ?thesis by simp
qed

theorem load_prompt_library_complete_header_witness:
  "set required_fields \<subseteq> set [''code'', ''method'', ''question'', ''explanation''] \<and>
   (\<exists>es. load_prompt_library ([''code'', ''method'', ''question'', ''explanation''] #
        [[''c'', ''m''], [], [''c2'', ''m2'', ''q2'', ''e2'', ''extra'']]) = Inr es \<and> length es = 2)"
  using load_prompt_library_complete_header [of "[''code'', ''method'', ''question'', ''explanation'']"
      "[[''c'', ''m''], [], [''c2'', ''m2'', ''q2'', ''e2'', ''extra'']]"]
  by (simp add: required_fields_def numeral_2_eq_2)

lemma dict_row_full:
  assumes "distinct hdr" and "k \<in> set hdr"
  shows "dict_row hdr (map src hdr) (Some k) = Some (PStr (src k))"
proof -
  obtain i where "i < length hdr" "k = hdr ! i"
    using assms(2) by (auto simp: in_set_conv_nth)
  then show ?thesis
    using dict_row_nth [OF assms(1)] by simp
qed

lemma load_prompt_library_table:
  assumes "distinct hdr" and "set required_fields \<subseteq> set hdr"
  shows "load_prompt_library (hdr # map (\<lambda>src. map src hdr) srcs) = Inr (map entry_of_source srcs)"
proof -
  have "hdr \<noteq> []"
    using assms(2) by (auto simp: required_fields_def)
  then have rows: "filter (\<lambda>r. r \<noteq> []) (map (\<lambda>src. map src hdr) srcs) = map (\<lambda>src. map src hdr) srcs"
    by (simp add: filter_id_conv)
  have "\<And>src. load_row (dict_row hdr (map src hdr)) = Inr (entry_of_source src)"
    using assms by (simp add: load_row_Inr_iff entry_of_source_def dict_row_full required_fields_def)
  then show ?thesis
    by (simp add: load_prompt_library_def rows map_result_map_arg map_result_total)
qed

text \<open>
  C6. Round trip: a table written under any header of distinct names that holds the four
  required ones, one record per source in header order, loads back as one entry per source,
  in order, and each entry read by key gives back the source's value for that key. Fields
  are read by name, so column order and extra columns are irrelevant.
\<close>

theorem load_prompt_library_roundtrip:
  assumes "distinct hdr" and "set required_fields \<subseteq> set hdr"
  shows "\<exists>es. load_prompt_library (hdr # map (\<lambda>src. map src hdr) srcs) = Inr es \<and>
           length es = length srcs \<and>
           (\<forall>j < length srcs. \<forall>k \<in> set required_fields. entry_get (es ! j) k = Inr (PStr ((srcs ! j) k)))"
  using load_prompt_library_table [OF assms]
  by (auto simp: entry_of_source_def entry_get_def required_fields_def)

theorem load_prompt_library_roundtrip_witness:
  "distinct [''code'', ''question'', ''x'', ''method'', ''explanation''] \<and>
   set required_fields \<subseteq> set [''code'', ''question'', ''x'', ''method'', ''explanation''] \<and>
   (\<exists>es. load_prompt_library ([''code'', ''question'', ''x'', ''method'', ''explanation''] #
      map (\<lambda>src. map src [''code'', ''question'', ''x'', ''method'', ''explanation''])
        [\<lambda>k. k, \<lambda>k. ''v'']) = Inr es \<and> length es = 2 \<and>
      entry_get (es ! 1) ''code'' = Inr (PStr ''v''))"
proof -
  have h: "distinct [''code'', ''question'', ''x'', ''method'', ''explanation'']"
    "set required_fields \<subseteq> set [''code'', ''question'', ''x'', ''method'', ''explanation'']"
    by (simp_all add: required_fields_def)
  obtain es where "load_prompt_library ([''code'', ''question'', ''x'', ''method'', ''explanation''] #
      map (\<lambda>src. map src [''code'', ''question'', ''x'', ''method'', ''explanation'']) [\<lambda>k. k, \<lambda>k. ''v'']) = Inr es"
    "length es = length [\<lambda>k. k, \<lambda>k. ''v'']"
    "\<forall>j < length [\<lambda>k. k, \<lambda>k. ''v'']. \<forall>k \<in> set required_fields.
        entry_get (es ! j) k = Inr (PStr (([\<lambda>k. k, \<lambda>k. ''v''] ! j) k))"
    using load_prompt_library_roundtrip [OF h, of "[\<lambda>k. k, \<lambda>k. ''v'']"] by blast
  then show ?thesis
    using h by (auto simp: required_fields_def entry_get_def entry_of_source_def numeral_2_eq_2)
qed

text \<open>
  C15. The loader returns the empty library exactly when the file has no non-blank record
  after its header (or is empty), and then raises nothing, although the spec requires
  \<open>MalformedLibraryError\<close> for a library with zero records.
\<close>

theorem load_prompt_library_empty_iff:
  "load_prompt_library records = Inr [] \<longleftrightarrow> list_all (\<lambda>r. r = []) (drop 1 records)"
proof (cases records)
  case Nil
  then show ?thesis
    by (simp add: load_prompt_library_def)
next
  case (Cons hdr rows)
  then show ?thesis
    by (simp add: load_prompt_library_def map_result_Inr_Nil filter_empty_conv list_all_iff)
qed

lemma entry_get_load_row:
  assumes "load_row d = Inr e" and "k \<in> set required_fields" and "d (Some k) = Some v"
  shows "entry_get e k = Inr v"
proof -
  have "k = ''question'' \<or> k = ''method'' \<or> k = ''explanation'' \<or> k = ''code''"
    using assms(2) by (simp add: required_fields_def)
  then show ?thesis
    using assms(1,3) unfolding load_row_Inr_iff by (elim disjE) (simp_all add: entry_get_def)
qed

lemma load_prompt_library_nth_row:
  assumes "load_prompt_library (hdr # rows) = Inr es" and "j < length es"
  shows "load_row (dict_row hdr (filter (\<lambda>r. r \<noteq> []) rows ! j)) = Inr (es ! j)"
proof -
  have len: "length es = length (filter (\<lambda>r. r \<noteq> []) rows)"
    using map_result_length [OF assms(1) [unfolded load_prompt_library_def]] by simp
  then have "load_row (dict_reader (hdr # rows) ! j) = Inr (es ! j)"
    using map_result_nth [OF assms(1) [unfolded load_prompt_library_def]] assms(2) by simp
  then show ?thesis
    using assms(2) len by simp
qed

text \<open>
  C16. Fields are read by name: the value of a required field in the \<open>j\<close>-th loaded entry
  is the string at that field's header position in the \<open>j\<close>-th non-blank record, or
  \<open>None\<close> when the record is too short to reach it. A short record is accepted, although
  the spec requires \<open>MalformedLibraryError\<close> when a field is absent from a record.
\<close>

theorem load_prompt_library_fields_by_name:
  assumes "distinct hdr" and "load_prompt_library (hdr # rows) = Inr es"
    and "j < length es" and "i < length hdr" and "hdr ! i \<in> set required_fields"
  shows "entry_get (es ! j) (hdr ! i) =
           Inr (if i < length (filter (\<lambda>r. r \<noteq> []) rows ! j)
                then PStr ((filter (\<lambda>r. r \<noteq> []) rows ! j) ! i) else PNone)"
  using entry_get_load_row [OF load_prompt_library_nth_row [OF assms(2,3)] assms(5) dict_row_nth [OF assms(1,4)]] .

theorem load_prompt_library_fields_by_name_witness:
  "distinct required_fields \<and>
   load_prompt_library (required_fields # [[''How do I compare two means?'']]) =
     Inr [\<lparr>question = PStr ''How do I compare two means?'', method_name = PNone,
           explanation = PNone, code = PNone\<rparr>] \<and>
   (0::nat) < length [\<lparr>question = PStr ''How do I compare two means?'', method_name = PNone,
           explanation = PNone, code = PNone\<rparr>] \<and>
   (1::nat) < length required_fields \<and> required_fields ! 1 \<in> set required_fields \<and>
   entry_get (\<lparr>question = PStr ''How do I compare two means?'', method_name = PNone,
           explanation = PNone, code = PNone\<rparr>) (required_fields ! 1) = Inr PNone"
proof -
  have d: "distinct required_fields"
    by (simp add: required_fields_def)
  have l: "load_prompt_library (required_fields # [[''How do I compare two means?'']]) =
     Inr [\<lparr>question = PStr ''How do I compare two means?'', method_name = PNone,
           explanation = PNone, code = PNone\<rparr>]"
    by (simp add: load_prompt_library_def required_fields_def dict_row_def load_row_def row_get_def
        dict_of_def)
  have "entry_get ([\<lparr>question = PStr ''How do I compare two means?'', method_name = PNone,
           explanation = PNone, code = PNone\<rparr>] ! 0) (required_fields ! 1) =
      Inr (if 1 < length (filter (\<lambda>r. r \<noteq> []) [[''How do I compare two means?'']] ! 0)
           then PStr ((filter (\<lambda>r. r \<noteq> []) [[''How do I compare two means?'']] ! 0) ! 1) else PNone)"
    by (rule load_prompt_library_fields_by_name [OF d l]) (simp_all add: required_fields_def)
  with d l show ?thesis
    by (simp add: required_fields_def)
qed

lemma dict_of_value: "dict_of kvs k = Some v \<Longrightarrow> v \<in> snd ` set kvs"
  by (force simp: dict_of_eq_map_of_rev dest: map_of_SomeD)

lemma dict_row_typed: "dict_row hdr r (Some k) = Some v \<Longrightarrow> str_or_none v"
proof -
  assume d: "dict_row hdr r (Some k) = Some v"
  have "dict_of (zip (map Some hdr) (map PStr r)) (Some k) = Some v \<Longrightarrow> str_or_none v"
    by (auto dest!: dict_of_value set_zip_rightD)
  with d show ?thesis
    by (auto simp: dict_row_def Let_def fold_restval_apply split: if_splits)
qed

lemma load_row_dict_row_typed: "load_row (dict_row hdr r) = Inr e \<Longrightarrow> entry_typed e"
  by (auto simp: load_row_Inr_iff entry_typed_def dest: dict_row_typed)

text \<open>
  C23. Type of the loaded entries: every field of every entry the loader returns is a
  string or \<open>None\<close> (from a short record), never the list of surplus fields DictReader
  files under the key \<open>None\<close>: what the student view prints with \<open>str\<close> is one of these two.
\<close>

theorem load_prompt_library_typed:
  assumes "load_prompt_library records = Inr es"
  shows "list_all entry_typed es"
proof (cases records)
  case Nil
  then show ?thesis
    using assms by (simp add: load_prompt_library_def)
next
  case (Cons hdr rows)
  have "list_all2 (\<lambda>d e. load_row d = Inr e) (map (dict_row hdr) (filter (\<lambda>r. r \<noteq> []) rows)) es"
    using map_result_Inr_D [OF assms [unfolded load_prompt_library_def]] Cons by simp
  then show ?thesis
    by (auto simp: list_all2_conv_all_nth list_all_length intro: load_row_dict_row_typed)
qed

theorem load_prompt_library_typed_witness:
  "load_prompt_library [required_fields, [''q'', ''m'', ''e'', ''c'', ''extra''], [''q2'']] =
     Inr [\<lparr>question = PStr ''q'', method_name = PStr ''m'', explanation = PStr ''e'', code = PStr ''c''\<rparr>,
          \<lparr>question = PStr ''q2'', method_name = PNone, explanation = PNone, code = PNone\<rparr>] \<and>
   list_all entry_typed
     [\<lparr>question = PStr ''q'', method_name = PStr ''m'', explanation = PStr ''e'', code = PStr ''c''\<rparr>,
      \<lparr>question = PStr ''q2'', method_name = PNone, explanation = PNone, code = PNone\<rparr>]"
proof -
  have l: "load_prompt_library [required_fields, [''q'', ''m'', ''e'', ''c'', ''extra''], [''q2'']] =
     Inr [\<lparr>question = PStr ''q'', method_name = PStr ''m'', explanation = PStr ''e'', code = PStr ''c''\<rparr>,
          \<lparr>question = PStr ''q2'', method_name = PNone, explanation = PNone, code = PNone\<rparr>]"
    by (simp add: load_prompt_library_def required_fields_def dict_row_def load_row_def row_get_def dict_of_def)
  show ?thesis
    using l load_prompt_library_typed [OF l] by simp
qed

lemma dict_of_zip_last:
  assumes "i < length xs" and "i < length ys" and "xs ! i \<notin> set (drop (Suc i) xs)"
  shows "dict_of (zip xs ys) (xs ! i) = Some (ys ! i)"
proof -
  have z: "zip xs ys = take i (zip xs ys) @ (xs ! i, ys ! i) # drop (Suc i) (zip xs ys)"
    using assms(1,2) id_take_nth_drop [of i "zip xs ys"] by simp
  have "map_of (rev (drop (Suc i) (zip xs ys))) (xs ! i) = None"
    using assms(3) by (auto simp: map_of_eq_None_iff drop_zip dest: set_zip_leftD)
  then have "map_of (rev (take i (zip xs ys) @ (xs ! i, ys ! i) # drop (Suc i) (zip xs ys))) (xs ! i) =
      Some (ys ! i)"
    by (simp add: map_of_append map_add_def)
  then show ?thesis
    using z by (simp add: dict_of_eq_map_of_rev)
qed

lemma dict_row_last:
  assumes "i < length hdr" and "i < length r" and "hdr ! i \<notin> set (drop (Suc i) hdr)"
  shows "dict_row hdr r (Some (hdr ! i)) = Some (PStr (r ! i))"
proof -
  have "Some (hdr ! i) \<notin> set (drop (Suc i) (map Some hdr))"
    using assms(3) by (auto simp: drop_map)
  then have z: "dict_of (zip (map Some hdr) (map PStr r)) (Some (hdr ! i)) = Some (PStr (r ! i))"
    using dict_of_zip_last [of i "map Some hdr" "map PStr r"] assms(1,2) by simp
  have "set (drop (length r) hdr) \<subseteq> set (drop (Suc i) hdr)"
    using assms(2) by (simp add: set_drop_subset_set_drop)
  then have "hdr ! i \<notin> set (drop (length r) hdr)"
    using assms(3) by blast
  then show ?thesis
    using z by (auto simp: dict_row_def Let_def fold_restval_apply)
qed

text \<open>
  C24. A field named twice in the header is read from its last column: for a required
  field whose name occurs at header position \<open>i\<close> and not after it, each entry holds the
  string at position \<open>i\<close> of its record (dict construction keeps the last duplicate key).
  The spec's loader reads each field by its name and does not say which column wins.
\<close>

theorem load_prompt_library_duplicate_header:
  assumes "load_prompt_library (hdr # rows) = Inr es" and "j < length es"
    and "i < length hdr" and "hdr ! i \<in> set required_fields" and "hdr ! i \<notin> set (drop (Suc i) hdr)"
    and "i < length (filter (\<lambda>r. r \<noteq> []) rows ! j)"
  shows "entry_get (es ! j) (hdr ! i) = Inr (PStr ((filter (\<lambda>r. r \<noteq> []) rows ! j) ! i))"
  using entry_get_load_row [OF load_prompt_library_nth_row [OF assms(1,2)] assms(4) dict_row_last [OF assms(3,6,5)]] .

theorem load_prompt_library_duplicate_header_witness:
  "load_prompt_library [[''question'', ''method'', ''explanation'', ''code'', ''method''], [''q'', ''m1'', ''e'', ''c'', ''m2'']] =
     Inr [\<lparr>question = PStr ''q'', method_name = PStr ''m2'', explanation = PStr ''e'', code = PStr ''c''\<rparr>] \<and>
   (0::nat) < length [\<lparr>question = PStr ''q'', method_name = PStr ''m2'', explanation = PStr ''e'', code = PStr ''c''\<rparr>] \<and>
   (4::nat) < length [''question'', ''method'', ''explanation'', ''code'', ''method''] \<and>
   [''question'', ''method'', ''explanation'', ''code'', ''method''] ! 4 \<in> set required_fields \<and>
   [''question'', ''method'', ''explanation'', ''code'', ''method''] ! 4 \<notin>
     set (drop (Suc 4) [''question'', ''method'', ''explanation'', ''code'', ''method'']) \<and>
   (4::nat) < length (filter (\<lambda>r. r \<noteq> []) [[''q'', ''m1'', ''e'', ''c'', ''m2'']] ! 0) \<and>
   entry_get (\<lparr>question = PStr ''q'', method_name = PStr ''m2'', explanation = PStr ''e'', code = PStr ''c''\<rparr>) ''method'' =
     Inr (PStr ''m2'')"
proof -
  have l: "load_prompt_library [[''question'', ''method'', ''explanation'', ''code'', ''method''], [''q'', ''m1'', ''e'', ''c'', ''m2'']] =
     Inr [\<lparr>question = PStr ''q'', method_name = PStr ''m2'', explanation = PStr ''e'', code = PStr ''c''\<rparr>]"
    by (simp add: load_prompt_library_def dict_row_def load_row_def row_get_def dict_of_def)
  have h: "(0::nat) < length [\<lparr>question = PStr ''q'', method_name = PStr ''m2'', explanation = PStr ''e'', code = PStr ''c''\<rparr>]"
    "(4::nat) < length [''question'', ''method'', ''explanation'', ''code'', ''method'']"
    "[''question'', ''method'', ''explanation'', ''code'', ''method''] ! 4 \<in> set required_fields"
    "[''question'', ''method'', ''explanation'', ''code'', ''method''] ! 4 \<notin>
       set (drop (Suc 4) [''question'', ''method'', ''explanation'', ''code'', ''method''])"
    "(4::nat) < length (filter (\<lambda>r. r \<noteq> []) [[''q'', ''m1'', ''e'', ''c'', ''m2'']] ! 0)"
    by (simp_all add: required_fields_def numeral_eq_Suc)
  show ?thesis
    using l h load_prompt_library_duplicate_header [OF l h] by (simp add: numeral_eq_Suc)
qed

end
