(* ===== verification/Similarity.thy ===== *)
theory Similarity
  imports Prelude
begin

text \<open>
  The similarity score of the student view: \<open>util.cos_sim(query_vec, question_embeddings)[0]\<close>
  (\<open>src/app.py\<close>, line 86). sentence-transformers' \<open>cos_sim\<close> turns a 1-D query into a
  1-row batch, normalises every row with \<open>torch.nn.functional.normalize\<close> (each row divided
  by the larger of its Euclidean norm and \<open>eps = 1e-12\<close>) and multiplies the two
  matrices; row 0 of the product is the list of scores, one per library question.
  Embedding vectors are \<open>real list\<close>s: float32 rounding is not modelled.
  \<^item> \<open>dot\<close>, \<open>l2norm\<close>, \<open>normalize\<close> and \<open>sim\<close> (the score of one pair) are the
    arithmetic; \<open>cos_sim\<close> is the whole call, raising \<open>RuntimeError\<close> where
    \<open>torch.mm\<close> does: when the widths differ, and when the library is empty (the
    empty tensor of an empty batch becomes a \<open>1 \<times> 0\<close> matrix).
  The lemmas here serve the matcher: \<open>cos_sim\<close>'s result and errors, and the score as
  the dot product over the two clamped norms. No property of the score's value (its range,
  its value on a vector against itself, invariance under scaling) is claimed: over reals
  such facts are exact where float32 is not, and HOL's \<open>x / 0 = 0\<close> would make them hold
  without the \<open>eps\<close> clamp, which is what keeps torch from producing NaN.
\<close>

type_synonym vec = "real list"

definition dot :: "vec \<Rightarrow> vec \<Rightarrow> real" where
  "dot a b = (\<Sum>(x, y) \<leftarrow> zip a b. x * y)"

definition l2norm :: "vec \<Rightarrow> real" where
  "l2norm v = sqrt (dot v v)"

definition normalize_eps :: real where
  "normalize_eps = 1 / 10 ^ 12"

definition normalize :: "vec \<Rightarrow> vec" where
  "normalize v = map (\<lambda>x. x / max (l2norm v) normalize_eps) v"

definition sim :: "vec \<Rightarrow> vec \<Rightarrow> real" where
  "sim a b = dot (normalize a) (normalize b)"

definition cos_sim :: "vec \<Rightarrow> vec list \<Rightarrow> real list result" where
  "cos_sim a bs =
     (if bs \<noteq> [] \<and> list_all (\<lambda>v. length v = length a) bs
      then Inr (map (sim a) bs)
      else Inl RuntimeError)"

lemma normalize_eps_pos [simp]: "0 < normalize_eps"
  by (simp add: normalize_eps_def)

lemma dot_comm: "dot a b = dot b a"
proof -
  have "(\<Sum>(x, y) \<leftarrow> zip a b. x * y) = (\<Sum>(x, y) \<leftarrow> zip b a. x * y)"
    by (induction a b rule: list_induct2') (simp_all add: mult.commute)
  then show ?thesis by (simp add: dot_def)
qed

lemma dot_Cons [simp]: "dot (x # a) (y # b) = x * y + dot a b"
  by (simp add: dot_def)

lemma dot_Nil [simp]: "dot [] b = 0" "dot a [] = 0"
  by (simp_all add: dot_def)

lemma dot_self_nonneg [simp]: "0 \<le> dot v v"
  by (induction v) simp_all

lemma dot_map_div_left: "dot (map (\<lambda>x. x / c) a) b = dot a b / c"
  by (induction a b rule: list_induct2') (simp_all add: add_divide_distrib)

lemma dot_map_div_right: "dot a (map (\<lambda>x. x / c) b) = dot a b / c"
  using dot_map_div_left [of c b a] by (simp add: dot_comm)

lemma l2norm_nonneg [simp]: "0 \<le> l2norm v"
  by (simp add: l2norm_def)

lemma l2norm_sq [simp]: "l2norm v * l2norm v = dot v v"
  by (simp add: l2norm_def)

lemma max_norm_pos [simp]: "0 < max (l2norm v) normalize_eps"
  by (simp add: less_max_iff_disj)

lemma max_norm_nonneg [simp]: "0 \<le> max (l2norm v) normalize_eps"
  using max_norm_pos [of v] by linarith

text \<open>
  Normalising both vectors and then multiplying is dividing the dot product by the two
  clamped norms: the computation \<open>cos_sim\<close> performs against the formula it computes.
\<close>

lemma sim_formula:
  "sim a b = dot a b / (max (l2norm a) normalize_eps * max (l2norm b) normalize_eps)"
  by (simp add: sim_def normalize_def dot_map_div_left dot_map_div_right)

lemma cos_sim_Inr_iff:
  "cos_sim a bs = Inr s \<longleftrightarrow>
     bs \<noteq> [] \<and> list_all (\<lambda>v. length v = length a) bs \<and> s = map (sim a) bs"
  by (auto simp: cos_sim_def)

end
