(* ===== verification/Matcher.thy ===== *)
theory Matcher
  imports Similarity
begin

text \<open>
  The matcher of the student view (\<open>src/app.py\<close>, lines 84--88):
  \<^verbatim>\<open>
    if user_input:
        query_vec = model.encode(user_input, convert_to_tensor=True)
        scores = util.cos_sim(query_vec, question_embeddings)[0]
        top_idx = scores.argmax().item()
        match = prompt_library[top_idx]
  \<close>
  \<^item> \<open>tensor_argmax\<close> is \<open>torch.argmax\<close> on a 1-D tensor: the index of the first maximal
    element (PyTorch documents that ties go to the first), \<open>RuntimeError\<close> on an empty
    tensor. It is the left-to-right scan \<open>argmax_scan\<close>, which replaces the best index only
    on a strictly larger score.
  \<^item> \<open>is_first_max xs i\<close> is the specification: \<open>xs ! i\<close> is maximal and every earlier
    element is strictly smaller.
  \<^item> \<open>match_query\<close> is lines 85--88, the embedding model a parameter \<open>encode\<close>; the entry
    type is a type variable, so the lemmas hold for any library entries. The guard
    \<open>if user_input:\<close> of line 84 is part of the student view (\<open>Script\<close>).
  The lemmas show that the scan computes the first maximum (and the \<open>LEAST\<close> index of
  \<open>Max\<close>), and the behaviour of the whole query on each branch.
\<close>

fun argmax_scan :: "nat \<Rightarrow> real \<Rightarrow> nat \<Rightarrow> real list \<Rightarrow> nat" where
  "argmax_scan best bv i [] = best"
| "argmax_scan best bv i (x # xs) =
     (if bv < x then argmax_scan i x (Suc i) xs else argmax_scan best bv (Suc i) xs)"

definition tensor_argmax :: "real list \<Rightarrow> nat result" where
  "tensor_argmax xs = (case xs of [] \<Rightarrow> Inl RuntimeError | x # rest \<Rightarrow> Inr (argmax_scan 0 x 1 rest))"

definition is_first_max :: "real list \<Rightarrow> nat \<Rightarrow> bool" where
  "is_first_max xs i \<longleftrightarrow>
     i < length xs \<and> (\<forall>j < length xs. xs ! j \<le> xs ! i) \<and> (\<forall>j < i. xs ! j < xs ! i)"

definition match_query :: "(string \<Rightarrow> vec) \<Rightarrow> 'e list \<Rightarrow> vec list \<Rightarrow> string \<Rightarrow> (nat \<times> 'e) result" where
  "match_query encode prompt_library question_embeddings user_input =
     rbind (cos_sim (encode user_input) question_embeddings) (\<lambda>scores.
     rbind (tensor_argmax scores) (\<lambda>top_idx.
     rbind (py_index prompt_library top_idx) (\<lambda>m.
     Inr (top_idx, m))))"

text \<open>The scan keeps the first maximum of the prefix it has read.\<close>

lemma is_first_max_snoc_greater:
  assumes "is_first_max p best" and "p ! best < x"
  shows "is_first_max (p @ [x]) (length p)"
  using assms by (auto simp: is_first_max_def nth_append less_Suc_eq)

lemma is_first_max_snoc_le:
  assumes "is_first_max p best" and "\<not> p ! best < x"
  shows "is_first_max (p @ [x]) best"
  using assms by (auto simp: is_first_max_def nth_append less_Suc_eq)

lemma argmax_scan_first_max:
  "is_first_max p best \<Longrightarrow> length p = i \<Longrightarrow> bv = p ! best \<Longrightarrow>
     is_first_max (p @ xs) (argmax_scan best bv i xs)"
proof (induction xs arbitrary: p best bv i)
  case Nil
  then show ?case by simp
next
  case (Cons x xs)
  have len: "length (p @ [x]) = Suc i"
    using Cons.prems(2) by simp
  show ?case
  proof (cases "bv < x")
    case True
    have fm: "is_first_max (p @ [x]) i"
      using Cons.prems True is_first_max_snoc_greater by blast
    have bv: "x = (p @ [x]) ! i"
      using Cons.prems(2) by (simp add: nth_append)
    have "is_first_max ((p @ [x]) @ xs) (argmax_scan i x (Suc i) xs)"
      by (rule Cons.IH [OF fm len bv])
    with True show ?thesis by simp
  next
    case False
    have fm: "is_first_max (p @ [x]) best"
      using Cons.prems False is_first_max_snoc_le by blast
    have "best < length p"
      using Cons.prems(1) by (simp add: is_first_max_def)
    then have bv: "bv = (p @ [x]) ! best"
      using Cons.prems(3) by (simp add: nth_append)
    have "is_first_max ((p @ [x]) @ xs) (argmax_scan best bv (Suc i) xs)"
      by (rule Cons.IH [OF fm len bv])
    with False show ?thesis by simp
  qed
qed

lemma is_first_max_unique:
  assumes "is_first_max xs i" and "is_first_max xs j"
  shows "i = j"
proof (cases i j rule: linorder_cases)
  case less
  then have "xs ! i < xs ! j" and "xs ! j \<le> xs ! i"
    using assms by (simp_all add: is_first_max_def)
  then show ?thesis by simp
next
  case greater
  then have "xs ! j < xs ! i" and "xs ! i \<le> xs ! j"
    using assms by (simp_all add: is_first_max_def)
  then show ?thesis by simp
qed

lemma tensor_argmax_Cons: "is_first_max (x # rest) (argmax_scan 0 x 1 rest)"
  using argmax_scan_first_max [of "[x]" 0 1 x rest] by (simp add: is_first_max_def)

lemma tensor_argmax_Inr_iff: "tensor_argmax xs = Inr i \<longleftrightarrow> is_first_max xs i"
proof (cases xs)
  case Nil
  then show ?thesis by (simp add: tensor_argmax_def is_first_max_def)
next
  case (Cons x rest)
  then show ?thesis
    using tensor_argmax_Cons [of x rest] is_first_max_unique
    by (auto simp: tensor_argmax_def)
qed

lemma tensor_argmax_Nil: "tensor_argmax [] = Inl RuntimeError"
  by (simp add: tensor_argmax_def)

lemma is_first_max_exists: "xs \<noteq> [] \<Longrightarrow> \<exists>i. is_first_max xs i"
  by (cases xs) (auto intro: tensor_argmax_Cons)

text \<open>The first maximum is the least index at which the list takes its maximum.\<close>

lemma is_first_max_Least:
  assumes "is_first_max xs i"
  shows "i = (LEAST k. k < length xs \<and> xs ! k = Max (set xs))"
proof -
  have len: "i < length xs" and le: "\<forall>j < length xs. xs ! j \<le> xs ! i"
    and lt: "\<forall>j < i. xs ! j < xs ! i"
    using assms by (auto simp: is_first_max_def)
  have mx: "xs ! i = Max (set xs)"
  proof (rule Max_eqI [symmetric])
    fix y
    assume "y \<in> set xs"
    then obtain k where "k < length xs" "y = xs ! k"
      by (auto simp: in_set_conv_nth)
    with le show "y \<le> xs ! i" by simp
  qed (use len in simp_all)
  show ?thesis
  proof (rule Least_equality [symmetric])
    show "i < length xs \<and> xs ! i = Max (set xs)"
      using len mx by simp
  next
    fix k
    assume k: "k < length xs \<and> xs ! k = Max (set xs)"
    show "i \<le> k"
    proof (rule ccontr)
      assume "\<not> i \<le> k"
      then have "xs ! k < xs ! i"
        using lt by simp
      with k mx show False by simp
    qed
  qed
qed

text \<open>
  C4. Refinement: on a non-empty tensor the scan returns the least index at which the
  scores reach their maximum, the abstract specification of an arg-max with ties broken
  towards the lowest index.
\<close>

theorem tensor_argmax_refines_least_max:
  assumes "xs \<noteq> []"
  shows "tensor_argmax xs = Inr (LEAST k. k < length xs \<and> xs ! k = Max (set xs))"
proof -
  obtain i where i: "is_first_max xs i"
    using is_first_max_exists [OF assms] by blast
  then have "tensor_argmax xs = Inr i"
    by (simp add: tensor_argmax_Inr_iff)
  with is_first_max_Least [OF i] show ?thesis by simp
qed

theorem tensor_argmax_refines_least_max_witness:
  "[1 / 2, 1, 1 :: real] \<noteq> [] \<and> tensor_argmax [1 / 2, 1, 1] = Inr 1 \<and>
   tensor_argmax [1 / 2, 1, 1 :: real] =
     Inr (LEAST k. k < length [1 / 2, 1, 1 :: real] \<and> [1 / 2, 1, 1 :: real] ! k = Max (set [1 / 2, 1, 1 :: real]))"
  using tensor_argmax_refines_least_max [of "[1 / 2, 1, 1]"]
  by (simp add: tensor_argmax_def)

lemma match_query_Inr_iff:
  "match_query encode lib embs q = Inr (i, e) \<longleftrightarrow>
     embs \<noteq> [] \<and> list_all (\<lambda>v. length v = length (encode q)) embs \<and>
     is_first_max (map (sim (encode q)) embs) i \<and> i < length lib \<and> e = lib ! i"
  by (auto simp: match_query_def rbind_eq_Inr_iff cos_sim_Inr_iff tensor_argmax_Inr_iff py_index_def)

lemma match_query_first_max_nth:
  assumes "match_query encode lib embs q = Inr (i, e)"
  shows "i < length embs" and "\<And>j. j < length embs \<Longrightarrow> sim (encode q) (embs ! j) \<le> sim (encode q) (embs ! i)"
    and "\<And>j. j < i \<Longrightarrow> sim (encode q) (embs ! j) < sim (encode q) (embs ! i)"
  using assms by (auto simp: match_query_Inr_iff is_first_max_def)

text \<open>
  C2. With an index as long as the library, non-empty, and of the query's width, the
  query returns: an index \<open>i\<close> and the library's entry at \<open>i\<close>, where \<open>i\<close> is the first
  index of highest similarity to the encoded query.
\<close>

theorem match_query_returns_first_max:
  assumes "length question_embeddings = length prompt_library"
    and "question_embeddings \<noteq> []"
    and "list_all (\<lambda>v. length v = length (encode q)) question_embeddings"
  shows "\<exists>i. match_query encode prompt_library question_embeddings q = Inr (i, prompt_library ! i) \<and>
             is_first_max (map (sim (encode q)) question_embeddings) i"
proof -
  obtain i where i: "is_first_max (map (sim (encode q)) question_embeddings) i"
    using is_first_max_exists assms(2) by (metis Nil_is_map_conv)
  then have "i < length prompt_library"
    using assms(1) by (simp add: is_first_max_def)
  with i assms(2,3) show ?thesis
    by (auto simp: match_query_Inr_iff)
qed

theorem match_query_returns_first_max_witness:
  "length [[1, 0], [0, 1 :: real]] = length [''t-test'', ''chi-square''] \<and>
   [[1, 0], [0, 1 :: real]] \<noteq> [] \<and>
   list_all (\<lambda>v. length v = length ((\<lambda>s. [1, 0 :: real]) ''comparing averages'')) [[1, 0], [0, 1]] \<and>
   match_query (\<lambda>s. [1, 0]) [''t-test'', ''chi-square''] [[1, 0], [0, 1]] ''comparing averages'' =
     Inr (0, ''t-test'')"
proof -
  have "\<exists>i. match_query (\<lambda>s. [1, 0]) [''t-test'', ''chi-square''] [[1, 0], [0, 1]] ''comparing averages'' =
      Inr (i, [''t-test'', ''chi-square''] ! i) \<and>
      is_first_max (map (sim ((\<lambda>s. [1, 0]) ''comparing averages'')) [[1, 0], [0, 1]]) i"
    by (rule match_query_returns_first_max) simp_all
  then obtain i where m: "match_query (\<lambda>s. [1, 0]) [''t-test'', ''chi-square''] [[1, 0], [0, 1]]
      ''comparing averages'' = Inr (i, [''t-test'', ''chi-square''] ! i)"
    and f: "is_first_max [sim [1, 0] [1, 0], sim [1, 0] [0, 1]] i"
    by auto
  have "sim [1, 0] [1, 0] = 1" "sim [1, 0] [0, 1] = 0"
    by (simp_all add: sim_formula l2norm_def normalize_eps_def)
  with f have "i = 0"
    by (auto simp: is_first_max_def less_Suc_eq numeral_2_eq_2)
  with m show ?thesis by simp
qed

text \<open>
  C3. Tie-break: of two library questions with the same embedding, the later one is
  never returned; in general every earlier question scores strictly less than the one
  returned.
\<close>

theorem match_query_tie_break:
  assumes "match_query encode prompt_library question_embeddings q = Inr (i, e)"
    and "j < k" and "k < length question_embeddings"
    and "question_embeddings ! j = question_embeddings ! k"
  shows "i \<noteq> k"
proof
  assume "i = k"
  then have "sim (encode q) (question_embeddings ! j) < sim (encode q) (question_embeddings ! k)"
    using match_query_first_max_nth(3) [OF assms(1)] assms(2) by simp
  with assms(4) show False by simp
qed

theorem match_query_tie_break_witness:
  "match_query (\<lambda>s. [1, 0]) [''a'', ''b''] [[0, 1], [0, 1]] ''q'' = Inr (0, ''a'') \<and>
   (0::nat) < 1 \<and> (1::nat) < length [[0, 1], [0, 1 :: real]] \<and>
   [[0, 1], [0, 1 :: real]] ! 0 = [[0, 1], [0, 1 :: real]] ! 1 \<and> (0::nat) \<noteq> 1"
proof -
  have m: "match_query (\<lambda>s. [1, 0]) [''a'', ''b''] [[0, 1], [0, 1]] ''q'' = Inr (0, ''a'')"
    by (simp add: match_query_Inr_iff is_first_max_def less_Suc_eq numeral_2_eq_2)
  show ?thesis
    using match_query_tie_break [OF m, of 0 1] by (simp add: m)
qed

text \<open>
  C13. The query raises exactly in these cases: \<open>RuntimeError\<close> when the index is
  empty or a question embedding's width differs from the query's (the matrix product's
  shape check), and \<open>IndexError\<close> when the chosen index is past the end of the library
  (an index longer than the library). In particular an empty library is only noticed when a
  student asks a question.
\<close>

theorem match_query_error_cases:
  "match_query encode prompt_library question_embeddings q = Inl err \<longleftrightarrow>
     (err = RuntimeError \<and>
        (question_embeddings = [] \<or> \<not> list_all (\<lambda>v. length v = length (encode q)) question_embeddings)) \<or>
     (err = IndexError \<and> question_embeddings \<noteq> [] \<and>
        list_all (\<lambda>v. length v = length (encode q)) question_embeddings \<and>
        (\<exists>i. is_first_max (map (sim (encode q)) question_embeddings) i \<and> length prompt_library \<le> i))"
proof (cases "question_embeddings \<noteq> [] \<and> list_all (\<lambda>v. length v = length (encode q)) question_embeddings")
  case True
  then obtain i where i: "is_first_max (map (sim (encode q)) question_embeddings) i"
    using is_first_max_exists by (metis Nil_is_map_conv)
  then have "tensor_argmax (map (sim (encode q)) question_embeddings) = Inr i"
    by (simp add: tensor_argmax_Inr_iff)
  with True have mq: "match_query encode prompt_library question_embeddings q =
      (if i < length prompt_library then Inr (i, prompt_library ! i) else Inl IndexError)"
    by (simp add: match_query_def cos_sim_def py_index_def)
  have ex: "(\<exists>i'. is_first_max (map (sim (encode q)) question_embeddings) i' \<and> length prompt_library \<le> i') \<longleftrightarrow>
      length prompt_library \<le> i"
    using i is_first_max_unique [OF i] by blast
  show ?thesis
    using True by (simp only: mq ex) auto
next
  case False
  then have "cos_sim (encode q) question_embeddings = Inl RuntimeError"
    by (auto simp: cos_sim_def)
  then have "match_query encode prompt_library question_embeddings q = Inl RuntimeError"
    by (simp add: match_query_def)
  with False show ?thesis
    by auto
qed

end
