(* ===== verification/Rubric.thy ===== *)
theory Rubric
  imports Prelude
begin

text \<open>
  The rubric view (\<open>src/app.py\<close>, lines 93--111). Three criteria, five levels whose text
  starts with the level's digit; one select box per criterion, preselected at
  \<open>index=2\<close>; on the button the total \<open>sum([int(s[0]) for s in scores.values()])\<close> is
  shown as \<open>Total Score: {total}/12\<close>.
  \<^item> The user's choice in the select box of criterion \<open>k\<close> is \<open>choice k\<close>, an index
    into the options (\<open>selectbox\<close> returns the option at that index; the widget offers
    only the five options, so in a session the index is always in range); \<open>scores\<close> is the
    dict built by the loop, as an association list in insertion order (the criteria are
    distinct).
  \<^item> \<open>str_first\<close> is \<open>s[0]\<close> (\<open>IndexError\<close> on the empty string) and \<open>py_int_digit\<close> is
    \<open>int\<close> applied to a one-character string: the digit's value, \<open>ValueError\<close> otherwise.
  The lemmas show that the digit read from a level is its index, and that the total is
  the sum of the chosen indices and lies between 0 and 12 (the denominator the view
  prints).
\<close>

definition rubric_criteria :: "string list" where
  "rubric_criteria =
     [''Data Cleaning & Preprocessing'', ''Statistical Analysis'', ''Visualization & Presentation'']"

definition rubric_levels :: "string list" where
  "rubric_levels =
     [''0 - Not achieved'', ''1 - Minimal'', ''2 - Basic'', ''3 - Expected'', ''4 - Excellent'']"

definition selectbox_default :: nat where
  "selectbox_default = 2"

definition selectbox :: "string list \<Rightarrow> nat \<Rightarrow> string result" where
  "selectbox options chosen = py_index options chosen"

definition rubric_scores :: "(string \<Rightarrow> nat) \<Rightarrow> (string \<times> string) list result" where
  "rubric_scores choice =
     map_result (\<lambda>k. rbind (selectbox rubric_levels (choice k)) (\<lambda>v. Inr (k, v))) rubric_criteria"

definition str_first :: "string \<Rightarrow> char result" where
  "str_first s = (case s of [] \<Rightarrow> Inl IndexError | c # _ \<Rightarrow> Inr c)"

definition py_int_digit :: "char \<Rightarrow> int result" where
  "py_int_digit c =
     (let n = (of_char c :: nat) in if 48 \<le> n \<and> n \<le> 57 then Inr (int n - 48) else Inl ValueError)"

definition rubric_total :: "(string \<times> string) list \<Rightarrow> int result" where
  "rubric_total scores =
     rbind (map_result (\<lambda>(k, s). rbind (str_first s) py_int_digit) scores) (\<lambda>xs. Inr (sum_list xs))"

definition rubric_view :: "(string \<Rightarrow> nat) \<Rightarrow> bool \<Rightarrow> int option result" where
  "rubric_view choice button =
     rbind (rubric_scores choice) (\<lambda>scores.
       if button then rbind (rubric_total scores) (\<lambda>total. Inr (Some total)) else Inr None)"

lemma rubric_level_digit:
  "i < length rubric_levels \<Longrightarrow> rbind (str_first (rubric_levels ! i)) py_int_digit = Inr (int i)"
  by (auto simp: rubric_levels_def str_first_def py_int_digit_def less_Suc_eq numeral_eq_Suc)

lemma rubric_scores_in_range:
  assumes "\<And>k. k \<in> set rubric_criteria \<Longrightarrow> choice k < length rubric_levels"
  shows "rubric_scores choice = Inr (map (\<lambda>k. (k, rubric_levels ! choice k)) rubric_criteria)"
  unfolding rubric_scores_def using assms
  by (intro map_result_total) (simp add: selectbox_def)

lemma rubric_total_levels:
  assumes "\<And>k. k \<in> set ks \<Longrightarrow> choice k < length rubric_levels"
  shows "rubric_total (map (\<lambda>k. (k, rubric_levels ! choice k)) ks) = Inr (\<Sum>k \<leftarrow> ks. int (choice k))"
proof -
  have "map_result (\<lambda>(k, s). rbind (str_first s) py_int_digit) (map (\<lambda>k. (k, rubric_levels ! choice k)) ks) =
      Inr (map (\<lambda>k. int (choice k)) ks)"
    using assms by (simp add: map_result_map_arg map_result_total rubric_level_digit)
  then show ?thesis
    by (simp add: rubric_total_def)
qed

lemma sum_list_choice_bounds:
  assumes "\<And>k. k \<in> set ks \<Longrightarrow> choice k < 5"
  shows "0 \<le> (\<Sum>k \<leftarrow> ks. int (choice k)) \<and> (\<Sum>k \<leftarrow> ks. int (choice k)) \<le> 4 * int (length ks)"
  using assms by (induction ks) fastforce+

lemma rubric_view_button:
  assumes "\<And>k. k \<in> set rubric_criteria \<Longrightarrow> choice k < length rubric_levels"
  shows "rubric_view choice True = Inr (Some (\<Sum>k \<leftarrow> rubric_criteria. int (choice k)))"
  using assms by (simp add: rubric_view_def rubric_scores_in_range rubric_total_levels)

text \<open>
  C10. Whatever levels are chosen, the total shown on the button is the sum of the
  chosen level indices, and it lies between 0 and 12, the denominator the view prints.
\<close>

theorem rubric_view_total_is_sum:
  assumes "\<forall>k \<in> set rubric_criteria. choice k < length rubric_levels"
  shows "rubric_view choice True =
           Inr (Some (int (choice ''Data Cleaning & Preprocessing'') + int (choice ''Statistical Analysis'') +
                      int (choice ''Visualization & Presentation''))) \<and>
         0 \<le> int (choice ''Data Cleaning & Preprocessing'') + int (choice ''Statistical Analysis'') +
               int (choice ''Visualization & Presentation'') \<and>
         int (choice ''Data Cleaning & Preprocessing'') + int (choice ''Statistical Analysis'') +
           int (choice ''Visualization & Presentation'') \<le> 12"
proof -
  have c: "\<And>k. k \<in> set rubric_criteria \<Longrightarrow> choice k < length rubric_levels"
    using assms by blast
  have "0 \<le> (\<Sum>k \<leftarrow> rubric_criteria. int (choice k)) \<and>
      (\<Sum>k \<leftarrow> rubric_criteria. int (choice k)) \<le> 4 * int (length rubric_criteria)"
    using assms by (intro sum_list_choice_bounds) (simp add: rubric_levels_def eval_nat_numeral)
  with rubric_view_button [OF c] show ?thesis
    by (simp add: rubric_criteria_def add.assoc)
qed

theorem rubric_view_total_is_sum_witness:
  "list_all (\<lambda>k. (\<lambda>k. if k = ''Statistical Analysis'' then 4 else 1) k < length rubric_levels) rubric_criteria \<and>
   rubric_view (\<lambda>k. if k = ''Statistical Analysis'' then 4 else 1) True = Inr (Some 6)"
proof -
  have h: "\<forall>k \<in> set rubric_criteria. (\<lambda>k. if k = ''Statistical Analysis'' then 4 else (1::nat)) k < length rubric_levels"
    by (simp add: rubric_criteria_def rubric_levels_def)
  show ?thesis
    using h rubric_view_total_is_sum [OF h] by (simp add: list_all_iff)
qed

end
