(* ===== verification/Instructor.thy ===== *)
theory Instructor
  imports Prelude "HOL-Library.Multiset"
begin

text \<open>
  The instructor view (\<open>src/app.py\<close>, lines 47--78) and \<open>export_to_word\<close> (lines 22--34).
  \<^item> An uploaded table, as far as the view uses it, is the record \<open>dataframe\<close>: its number
    of rows and its columns with their pandas dtype class (\<open>col_dtype\<close>: numeric, object,
    or any other dtype such as bool, datetime or category, which neither
    \<open>select_dtypes(include='number')\<close> nor \<open>include='object'\<close> selects).
    \<open>select_dtypes\<close> keeps the names of the columns of one class, in column order.
  \<^item> \<open>instructor_suggestions\<close> is lines 59--68: three guarded appends, in source order.
    The texts start with an emoji, written as its UTF-8 bytes.
  \<^item> \<open>dataset_summary\<close> is the f-string of line 75, with Python's \<open>str\<close> of the counts and
    \<open>repr\<close> of the two name lists.
  \<^item> A Word document is the list of blocks added to it (\<open>doc_block\<close>: a heading with its
    level, or a paragraph with its style); \<open>add_bullets\<close> is the loop of lines 30--31.
    The working directory is \<open>files\<close>, a map from paths to saved documents;
    \<open>export_to_word\<close> stores the document there and returns the path, and
    \<open>open_read\<close> is \<open>open(file_path, "rb")\<close> of line 77.
  \<^item> The page after an upload is a list of widgets (\<open>iwidget\<close>), in source order:
    the loaded message with the shape (line 53), the preview (54), the chart of the numeric
    columns (57), the subheaders, one markdown bullet per suggestion (71--72), and on the
    export button the download button carrying the file read back (78).
    \<open>instructor_view\<close> is the whole branch: nothing after the uploader without an upload.
  In a single session \<open>open_read\<close> reads the file whole at the open: the open of line 77
  and the read of line 78 are taken together, and \<open>doc.save\<close> as one step; \<open>Concurrency\<close>
  splits them where sessions interleave. The errors of \<open>pd.read_csv\<close> (line 52) and
  of the file operations are not modelled. The lemmas show that the suggestions depend
  only on the multiset of column classes, that the saved document's bullets read back as
  the suggestions, and what the view can do to the working directory.
\<close>

datatype col_dtype = Number | Object | OtherDtype

record dataframe =
  df_nrows :: nat
  df_columns :: "(string \<times> col_dtype) list"

definition select_dtypes :: "dataframe \<Rightarrow> col_dtype \<Rightarrow> string list" where
  "select_dtypes df d = map fst (filter (\<lambda>c. snd c = d) (df_columns df))"

definition suggest_correlation :: string where
  "suggest_correlation = [CHR 0xF0, CHR 0x9F, CHR 0x94, CHR 0x8D] @
     '' Explore correlation between numerical variables.''"

definition suggest_independence :: string where
  "suggest_independence = [CHR 0xF0, CHR 0x9F, CHR 0x93, CHR 0x8A] @
     '' Test independence between categorical variables.''"

definition suggest_group_means :: string where
  "suggest_group_means = [CHR 0xF0, CHR 0x9F, CHR 0x93, CHR 0x88] @
     '' Compare group means (t-test or ANOVA).''"

definition instructor_suggestions :: "dataframe \<Rightarrow> string list" where
  "instructor_suggestions df =
     (let cat_cols = select_dtypes df Object;
          num_cols = select_dtypes df Number;
          s0 = [];
          s1 = (if 2 \<le> length num_cols then s0 @ [suggest_correlation] else s0);
          s2 = (if 2 \<le> length cat_cols then s1 @ [suggest_independence] else s1);
          s3 = (if cat_cols \<noteq> [] \<and> num_cols \<noteq> [] then s2 @ [suggest_group_means] else s2)
      in s3)"

definition dataset_summary :: "dataframe \<Rightarrow> string" where
  "dataset_summary df =
     ''Rows: '' @ py_str_nat (df_nrows df) @ '', Columns: '' @ py_str_nat (length (df_columns df)) @
     [CHR 0x0A] @ ''Numerical: '' @ py_repr_list (select_dtypes df Number) @
     [CHR 0x0A] @ ''Categorical: '' @ py_repr_list (select_dtypes df Object)"

datatype doc_block = Heading string nat | Paragraph string "string option"

fun add_bullets :: "doc_block list \<Rightarrow> string list \<Rightarrow> doc_block list" where
  "add_bullets doc [] = doc"
| "add_bullets doc (s # ss) = add_bullets (doc @ [Paragraph (''- '' @ s) (Some ''List Bullet'')]) ss"

text \<open>
  The working directory, as far as the view uses it: the documents saved under each path.
  \<open>doc.save(file_path)\<close> stores the document there; \<open>open(file_path, "rb")\<close> reads it back
  (\<open>FileNotFoundError\<close> when nothing is stored).
\<close>

type_synonym files = "string \<rightharpoonup> doc_block list"

definition export_to_word :: "files \<Rightarrow> string \<Rightarrow> string list \<Rightarrow> files \<times> string" where
  "export_to_word fs summary suggestions =
     (let doc = [Heading ''Statistical Project Assignment'' 1,
                 Paragraph ''The system analyzed the dataset and suggested the following project topics:'' None,
                 Heading ''1. Dataset Summary'' 2,
                 Paragraph summary None,
                 Heading ''2. Suggested Tasks'' 2];
          doc' = add_bullets doc suggestions;
          file_path = ''project_assignment.docx''
      in (fs(file_path \<mapsto> doc'), file_path))"

definition open_read :: "files \<Rightarrow> string \<Rightarrow> doc_block list result" where
  "open_read fs path = (case fs path of None \<Rightarrow> Inl (FileNotFoundError path) | Some d \<Rightarrow> Inr d)"

text \<open>
  The widgets the view renders after an upload, in source order (the header and the
  uploader itself come first whatever the upload). \<open>st.dataframe(df.head())\<close> shows the
  first five rows under the column names; \<open>st.bar_chart\<close> plots the numeric columns.
\<close>

datatype iwidget =
    IWSuccess string
  | IWDataframe nat "string list"
  | IWSubheader string
  | IWBarChart "string list"
  | IWMarkdown string
  | IWDownload string "doc_block list" string

definition loaded_message :: "dataframe \<Rightarrow> string" where
  "loaded_message df =
     [CHR 0xE2, CHR 0x9C, CHR 0x85] @ '' Dataset loaded: '' @ py_str_nat (df_nrows df) @ '' rows '' @
     [CHR 0xC3, CHR 0x97] @ '' '' @ py_str_nat (length (df_columns df)) @ '' columns.''"

definition df_head :: "dataframe \<Rightarrow> iwidget" where
  "df_head df = IWDataframe (min 5 (df_nrows df)) (map fst (df_columns df))"

definition instructor_page :: "dataframe \<Rightarrow> string list \<Rightarrow> iwidget list" where
  "instructor_page df suggestions =
     [IWSuccess (loaded_message df), df_head df,
      IWSubheader ([CHR 0xF0, CHR 0x9F, CHR 0x93, CHR 0x8A] @ '' Quick Data Visualization''),
      IWBarChart (select_dtypes df Number),
      IWSubheader ([CHR 0xF0, CHR 0x9F, CHR 0x93, CHR 0x8C] @ '' Suggested Project Topics'')] @
     map (\<lambda>s. IWMarkdown (''- '' @ s)) suggestions"

definition download_label :: string where
  "download_label = [CHR 0xF0, CHR 0x9F, CHR 0x93, CHR 0xA5] @ '' Download Assignment File''"

definition instructor_view ::
  "files \<Rightarrow> dataframe option \<Rightarrow> bool \<Rightarrow> (iwidget list \<times> files) result" where
  "instructor_view fs uploaded export_button =
     (case uploaded of
        None \<Rightarrow> Inr ([], fs)
      | Some df \<Rightarrow>
          (let suggestions = instructor_suggestions df;
               page = instructor_page df suggestions
           in if export_button
              then (let summary = dataset_summary df;
                        (fs', file_path) = export_to_word fs summary suggestions
                    in rbind (open_read fs' file_path) (\<lambda>f.
                         Inr (page @ [IWDownload download_label f ''project_assignment.docx''], fs')))
              else Inr (page, fs)))"

text \<open>The reader's side of a bullet: the text of a \<open>List Bullet\<close> paragraph after its dash.\<close>

fun bullet_text :: "doc_block \<Rightarrow> string option" where
  "bullet_text (Paragraph t (Some style)) =
     (if style = ''List Bullet'' \<and> take 2 t = ''- '' then Some (drop 2 t) else None)"
| "bullet_text _ = None"

definition doc_bullets :: "doc_block list \<Rightarrow> string list" where
  "doc_bullets doc = List.map_filter bullet_text doc"

lemma length_select_dtypes:
  "length (select_dtypes df d) = count (mset (map snd (df_columns df))) d"
proof -
  have "\<And>cs. length (filter (\<lambda>c. snd c = d) cs) = count_list (map snd cs) d"
    by (induct_tac cs) auto
  then show ?thesis
    by (simp only: select_dtypes_def length_map count_mset)
qed

lemma select_dtypes_Nil_iff: "select_dtypes df d = [] \<longleftrightarrow> length (select_dtypes df d) = 0"
  by simp

lemma suggestions_distinct_texts:
  "suggest_correlation \<noteq> suggest_independence" "suggest_correlation \<noteq> suggest_group_means"
  "suggest_independence \<noteq> suggest_group_means"
  by (simp_all add: suggest_correlation_def suggest_independence_def suggest_group_means_def)

lemma instructor_suggestions_by_counts:
  "instructor_suggestions df =
     (if 2 \<le> length (select_dtypes df Number) then [suggest_correlation] else []) @
     (if 2 \<le> length (select_dtypes df Object) then [suggest_independence] else []) @
     (if select_dtypes df Object \<noteq> [] \<and> select_dtypes df Number \<noteq> [] then [suggest_group_means] else [])"
  by (simp add: instructor_suggestions_def Let_def)

text \<open>
  C11. The suggestions depend only on how many columns of each dtype class the table
  has (the multiset of the classes): two tables whose columns have the same multiset of classes (in any order, under any
  names, with any number of rows) get the same suggestions.
\<close>

theorem instructor_suggestions_dtype_multiset:
  assumes "mset (map snd (df_columns df')) = mset (map snd (df_columns df))"
  shows "instructor_suggestions df' = instructor_suggestions df"
proof -
  have "\<And>d. length (select_dtypes df' d) = length (select_dtypes df d)"
    using assms by (simp add: length_select_dtypes)
  then have "\<And>d. select_dtypes df' d = [] \<longleftrightarrow> select_dtypes df d = []"
    by (metis length_0_conv)
  then show ?thesis
    using \<open>\<And>d. length (select_dtypes df' d) = length (select_dtypes df d)\<close>
    by (simp add: instructor_suggestions_by_counts)
qed

theorem instructor_suggestions_dtype_multiset_witness:
  "mset (map snd (df_columns \<lparr>df_nrows = 5, df_columns = [(''score'', Number), (''group'', Object), (''age'', Number)]\<rparr>)) =
     mset (map snd (df_columns \<lparr>df_nrows = 2, df_columns = [(''g'', Object), (''x'', Number), (''y'', Number)]\<rparr>)) \<and>
   instructor_suggestions \<lparr>df_nrows = 5, df_columns = [(''score'', Number), (''group'', Object), (''age'', Number)]\<rparr> =
     instructor_suggestions \<lparr>df_nrows = 2, df_columns = [(''g'', Object), (''x'', Number), (''y'', Number)]\<rparr>"
proof -
  have h: "mset (map snd (df_columns \<lparr>df_nrows = 5, df_columns = [(''score'', Number), (''group'', Object), (''age'', Number)]\<rparr>)) =
     mset (map snd (df_columns \<lparr>df_nrows = 2, df_columns = [(''g'', Object), (''x'', Number), (''y'', Number)]\<rparr>))"
    by (simp add: add_mset_commute)
  show ?thesis
    using h instructor_suggestions_dtype_multiset [OF h] by simp
qed

lemma add_bullets_append:
  "add_bullets doc ss = doc @ map (\<lambda>s. Paragraph (''- '' @ s) (Some ''List Bullet'')) ss"
  by (induction ss arbitrary: doc) simp_all

lemma doc_bullets_bullets:
  "doc_bullets (pre @ map (\<lambda>s. Paragraph (''- '' @ s) (Some ''List Bullet'')) ss) = doc_bullets pre @ ss"
proof -
  have "List.map_filter bullet_text (map (\<lambda>s. Paragraph (''- '' @ s) (Some ''List Bullet'')) ss) = ss"
    by (induction ss) simp_all
  then show ?thesis
    by (simp add: doc_bullets_def map_filter_append)
qed

text \<open>The document \<open>export_to_word\<close> saves: five fixed blocks, then one bullet per suggestion.\<close>

lemma export_to_word_saves:
  "\<exists>pre. export_to_word fs summary ss =
       (fs(''project_assignment.docx'' \<mapsto> pre @ map (\<lambda>s. Paragraph (''- '' @ s) (Some ''List Bullet'')) ss),
        ''project_assignment.docx'') \<and>
     doc_bullets pre = [] \<and> length pre = 5 \<and> pre ! 3 = Paragraph summary None"
  by (rule exI [of _ "[Heading ''Statistical Project Assignment'' 1,
         Paragraph ''The system analyzed the dataset and suggested the following project topics:'' None,
         Heading ''1. Dataset Summary'' 2, Paragraph summary None, Heading ''2. Suggested Tasks'' 2]"])
    (simp add: export_to_word_def add_bullets_append Let_def doc_bullets_def map_filter_def)

text \<open>
  C12. Round trip through the working directory: \<open>export_to_word\<close> stores one document
  under \<open>project_assignment.docx\<close>, leaves every other file as it was, and returns that
  path; the \<open>List Bullet\<close> paragraphs of the stored document read back as exactly the
  suggestions, in order, after its five fixed blocks, the fourth of which is the summary.
\<close>

theorem export_to_word_roundtrip:
  "\<exists>doc. export_to_word fs summary suggestions =
          (fs(''project_assignment.docx'' \<mapsto> doc), ''project_assignment.docx'') \<and>
        doc_bullets doc = suggestions \<and> length doc = 5 + length suggestions \<and>
        doc ! 3 = Paragraph summary None"
proof -
  obtain pre where "export_to_word fs summary suggestions =
       (fs(''project_assignment.docx'' \<mapsto> pre @ map (\<lambda>s. Paragraph (''- '' @ s) (Some ''List Bullet'')) suggestions),
        ''project_assignment.docx'')"
    and "doc_bullets pre = []" "length pre = 5" "pre ! 3 = Paragraph summary None"
    using export_to_word_saves by blast
  then show ?thesis
    by (intro exI [of _ "pre @ map (\<lambda>s. Paragraph (''- '' @ s) (Some ''List Bullet'')) suggestions"])
      (simp add: doc_bullets_bullets [simplified] nth_append)
qed

text \<open>What the view can do to the working directory: nothing, or save an assignment document.\<close>

lemma instructor_view_files:
  assumes "instructor_view fs up b = Inr (ws, fs')"
  shows "fs' = fs \<or>
         (b \<and> (\<exists>df doc. up = Some df \<and> fs' = fs(''project_assignment.docx'' \<mapsto> doc) \<and>
            doc_bullets doc = instructor_suggestions df \<and> doc ! 3 = Paragraph (dataset_summary df) None))"
proof (cases "up \<noteq> None \<and> b")
  case False
  then show ?thesis
    using assms by (auto simp: instructor_view_def Let_def split: option.splits)
next
  case True
  then obtain df where df: "up = Some df" and b: b
    by blast
  obtain pre where e: "export_to_word fs (dataset_summary df) (instructor_suggestions df) =
       (fs(''project_assignment.docx'' \<mapsto>
          pre @ map (\<lambda>s. Paragraph (''- '' @ s) (Some ''List Bullet'')) (instructor_suggestions df)),
        ''project_assignment.docx'')"
    and "doc_bullets pre = []" "length pre = 5" "pre ! 3 = Paragraph (dataset_summary df) None"
    using export_to_word_saves by blast
  moreover have "fs' = fs(''project_assignment.docx'' \<mapsto>
          pre @ map (\<lambda>s. Paragraph (''- '' @ s) (Some ''List Bullet'')) (instructor_suggestions df))"
    using assms df b by (simp add: instructor_view_def e open_read_def Let_def)
  ultimately have "fs' = fs(''project_assignment.docx'' \<mapsto>
          pre @ map (\<lambda>s. Paragraph (''- '' @ s) (Some ''List Bullet'')) (instructor_suggestions df)) \<and>
      doc_bullets (pre @ map (\<lambda>s. Paragraph (''- '' @ s) (Some ''List Bullet'')) (instructor_suggestions df)) =
        instructor_suggestions df \<and>
      (pre @ map (\<lambda>s. Paragraph (''- '' @ s) (Some ''List Bullet'')) (instructor_suggestions df)) ! 3 =
        Paragraph (dataset_summary df) None"
    by (simp add: doc_bullets_bullets [simplified] nth_append)
  then show ?thesis
    using df b by blast
qed

end
