(* ===== verification/Script.thy ===== *)
theory Script
  imports Library Matcher Rubric Instructor
begin

text \<open>
  One run of the script \<open>src/app.py\<close> (Streamlit reruns it from the top on every
  interaction, so a run is the unit of behaviour).
  \<^item> The module-level names the views read are the record \<open>script_globals\<close>, each field
    \<open>None\<close> until its assignment has run: \<open>menu\<close> (line 40), \<open>prompt_library\<close> (43),
    \<open>questions\<close> (44) and \<open>question_embeddings\<close> (45). The statements that assign them
    are \<open>stmt\<close>, and \<open>exec_stmt\<close> runs one: it raises \<open>NameError\<close> where it reads a name not
    yet assigned, and whatever the call it makes raises. \<open>module_stmts\<close> is their order
    in the source and \<open>exec_stmts\<close> runs a list, stopping at the first exception.
  \<^item> The embedding model (line 42) is the record \<open>embedding_model\<close>: its encoding of a
    string, and what \<open>model.encode\<close> does with a question that is not a string (\<open>None\<close>
    from a short CSV record: sentence-transformers either encodes its \<open>str\<close> or raises,
    depending on the batch), so that one model serves the batch of line 45 and the query of
    line 85.
  \<^item> \<open>student_view\<close> is lines 84--91 over the globals, rendering the match as the three
    widgets of lines 89--91 (\<open>render_match\<close>; f-strings print a value with \<open>py_str\<close>);
    \<open>run_script\<close> is a whole run: the module statements, then the view the menu selects.
  The lemmas show that the module statements, in the source's order, leave the index in
  step with the library (one embedding per entry, the encoding of its question), so the
  student view is only ever reached with a built index (its \<open>NameError\<close> branches, the
  spec's \<open>IndexNotReadyError\<close>, are unreachable), and that a loader exception aborts the
  run whatever view is chosen.
\<close>

datatype mode = InstructorMode | StudentMode | RubricMode

record script_globals =
  g_menu :: "mode option"
  g_prompt_library :: "prompt_entry list option"
  g_questions :: "pyval list option"
  g_question_embeddings :: "vec list option"

record embedding_model =
  encode_str :: "string \<Rightarrow> vec"
  encode_nonstr :: "pyval \<Rightarrow> vec result"

definition encode_item :: "embedding_model \<Rightarrow> pyval \<Rightarrow> vec result" where
  "encode_item m q = (case q of PStr s \<Rightarrow> Inr (encode_str m s) | _ \<Rightarrow> encode_nonstr m q)"

definition init_globals :: script_globals where
  "init_globals = \<lparr>g_menu = None, g_prompt_library = None, g_questions = None,
                   g_question_embeddings = None\<rparr>"

datatype stmt = SelectMode mode | LoadLibrary "string list list" | CollectQuestions | EncodeQuestions

fun exec_stmt :: "embedding_model \<Rightarrow> script_globals \<Rightarrow> stmt \<Rightarrow> script_globals result" where
  "exec_stmt m g (SelectMode md) = Inr (g\<lparr>g_menu := Some md\<rparr>)"
| "exec_stmt m g (LoadLibrary records) =
     rbind (load_prompt_library records) (\<lambda>lib. Inr (g\<lparr>g_prompt_library := Some lib\<rparr>))"
| "exec_stmt m g CollectQuestions =
     (case g_prompt_library g of
        None \<Rightarrow> Inl (NameError ''prompt_library'')
      | Some lib \<Rightarrow> Inr (g\<lparr>g_questions := Some (map question lib)\<rparr>))"
| "exec_stmt m g EncodeQuestions =
     (case g_questions g of
        None \<Rightarrow> Inl (NameError ''questions'')
      | Some qs \<Rightarrow> rbind (map_result (encode_item m) qs) (\<lambda>embs. Inr (g\<lparr>g_question_embeddings := Some embs\<rparr>)))"

fun exec_stmts :: "embedding_model \<Rightarrow> script_globals \<Rightarrow> stmt list \<Rightarrow> script_globals result" where
  "exec_stmts m g [] = Inr g"
| "exec_stmts m g (s # ss) = rbind (exec_stmt m g s) (\<lambda>g'. exec_stmts m g' ss)"

definition module_stmts :: "mode \<Rightarrow> string list list \<Rightarrow> stmt list" where
  "module_stmts md records = [SelectMode md, LoadLibrary records, CollectQuestions, EncodeQuestions]"

datatype widget = WSuccess string | WMarkdown string | WCode string string

fun py_str :: "pyval \<Rightarrow> string" where
  "py_str (PStr s) = s"
| "py_str PNone = ''None''"
| "py_str (PList xs) = py_repr_list xs"

definition render_match :: "prompt_entry \<Rightarrow> widget list result" where
  "render_match match =
     rbind (entry_get match ''method'') (\<lambda>meth.
     rbind (entry_get match ''explanation'') (\<lambda>expl.
     rbind (entry_get match ''code'') (\<lambda>c.
     Inr [WSuccess ([CHR 0xF0, CHR 0x9F, CHR 0x93, CHR 0x98] @ '' Suggested Method: '' @ py_str meth),
          WMarkdown (''**'' @ [CHR 0xF0, CHR 0x9F, CHR 0xA7, CHR 0xA0] @ '' Explanation:** '' @ py_str expl),
          WCode (py_str c) ''python''])))"

definition student_view :: "embedding_model \<Rightarrow> script_globals \<Rightarrow> string \<Rightarrow> widget list result" where
  "student_view m g user_input =
     (if user_input \<noteq> [] then
        (case g_question_embeddings g of
           None \<Rightarrow> Inl (NameError ''question_embeddings'')
         | Some embs \<Rightarrow>
             (case g_prompt_library g of
                None \<Rightarrow>
                  rbind (cos_sim (encode_str m user_input) embs) (\<lambda>scores.
                  rbind (tensor_argmax scores) (\<lambda>top_idx. Inl (NameError ''prompt_library'')))
              | Some lib \<Rightarrow>
                  rbind (match_query (encode_str m) lib embs user_input) (\<lambda>(top_idx, match).
                  render_match match)))
      else Inr [])"

record ui_inputs =
  in_mode :: mode
  in_library_csv :: "string list list"
  in_upload :: "dataframe option"
  in_export_button :: bool
  in_user_input :: string
  in_rubric_choice :: "string \<Rightarrow> nat"
  in_rubric_button :: bool

datatype view_output =
    InstructorOut "iwidget list"
  | StudentOut "widget list"
  | RubricOut "int option"

definition run_script ::
  "embedding_model \<Rightarrow> files \<Rightarrow> ui_inputs \<Rightarrow> (view_output \<times> files) result" where
  "run_script m fs inp =
     rbind (exec_stmts m init_globals (module_stmts (in_mode inp) (in_library_csv inp))) (\<lambda>g.
       (case g_menu g of
          None \<Rightarrow> Inl (NameError ''menu'')
        | Some InstructorMode \<Rightarrow>
            map_sum id (\<lambda>(ws, fs'). (InstructorOut ws, fs'))
              (instructor_view fs (in_upload inp) (in_export_button inp))
        | Some StudentMode \<Rightarrow> map_sum id (\<lambda>ws. (StudentOut ws, fs)) (student_view m g (in_user_input inp))
        | Some RubricMode \<Rightarrow>
            map_sum id (\<lambda>t. (RubricOut t, fs)) (rubric_view (in_rubric_choice inp) (in_rubric_button inp))))"

text \<open>The index is built when the embeddings are assigned (the spec's \<open>Unbuilt\<close>/\<open>Built\<close>).\<close>

definition index_built :: "script_globals \<Rightarrow> bool" where
  "index_built g \<longleftrightarrow> g_question_embeddings g \<noteq> None"

text \<open>The index is in step with the library: one embedding per entry, that of its question.\<close>

definition index_consistent :: "embedding_model \<Rightarrow> script_globals \<Rightarrow> bool" where
  "index_consistent m g \<longleftrightarrow>
     (case (g_prompt_library g, g_question_embeddings g) of
        (Some lib, Some embs) \<Rightarrow> list_all2 (\<lambda>e v. encode_item m (question e) = Inr v) lib embs
      | _ \<Rightarrow> False)"

lemma exec_stmts_append:
  "exec_stmts m g (xs @ ys) = rbind (exec_stmts m g xs) (\<lambda>g'. exec_stmts m g' ys)"
  by (induction xs arbitrary: g) (auto simp: rbind_def split: sum.split)

lemma module_init_Inr_iff:
  "exec_stmts m init_globals (module_stmts md records) = Inr g \<longleftrightarrow>
     (\<exists>lib embs. load_prompt_library records = Inr lib \<and>
        map_result (encode_item m) (map question lib) = Inr embs \<and>
        g = \<lparr>g_menu = Some md, g_prompt_library = Some lib, g_questions = Some (map question lib),
             g_question_embeddings = Some embs\<rparr>)"
  by (auto simp: module_stmts_def init_globals_def rbind_eq_Inr_iff)

lemma module_init_Inl_load:
  "load_prompt_library records = Inl e \<Longrightarrow>
     exec_stmts m init_globals (module_stmts md records) = Inl e"
  by (simp add: module_stmts_def)

lemma render_match_Inr:
  "render_match match =
     Inr [WSuccess ([CHR 0xF0, CHR 0x9F, CHR 0x93, CHR 0x98] @ '' Suggested Method: '' @ py_str (method_name match)),
          WMarkdown (''**'' @ [CHR 0xF0, CHR 0x9F, CHR 0xA7, CHR 0xA0] @ '' Explanation:** '' @ py_str (explanation match)),
          WCode (py_str (code match)) ''python'']"
  by (simp add: render_match_def entry_get_def)

lemma student_view_consistent:
  assumes "g_prompt_library g = Some lib" and "g_question_embeddings g = Some embs"
    and "user_input \<noteq> []"
  shows "student_view m g user_input =
           rbind (match_query (encode_str m) lib embs user_input) (\<lambda>(i, match). render_match match)"
  using assms by (simp add: student_view_def)

text \<open>
  C5. Run in the source's order, the module statements either raise or leave a built
  index in step with the library: one embedding per entry, the model's encoding of that
  entry's question, at the same position.
\<close>

theorem module_init_index_consistent:
  assumes "exec_stmts m init_globals (module_stmts md records) = Inr g"
  shows "index_built g \<and> index_consistent m g"
proof -
  obtain lib embs where l: "load_prompt_library records = Inr lib"
    and e: "map_result (encode_item m) (map question lib) = Inr embs"
    and g: "g = \<lparr>g_menu = Some md, g_prompt_library = Some lib, g_questions = Some (map question lib),
             g_question_embeddings = Some embs\<rparr>"
    using assms by (auto simp: module_init_Inr_iff)
  have "list_all2 (\<lambda>e v. encode_item m (question e) = Inr v) lib embs"
    using map_result_Inr_D [OF e] by (simp add: list_all2_map1)
  with g show ?thesis
    by (simp add: index_built_def index_consistent_def)
qed

theorem module_init_index_consistent_witness:
  "exec_stmts \<lparr>encode_str = (\<lambda>s. [1, 0]), encode_nonstr = (\<lambda>v. Inl TypeError)\<rparr> init_globals
      (module_stmts StudentMode [[''question'', ''method'', ''explanation'', ''code''], [''q'', ''m'', ''e'', ''c'']]) =
    Inr \<lparr>g_menu = Some StudentMode,
         g_prompt_library = Some [\<lparr>question = PStr ''q'', method_name = PStr ''m'', explanation = PStr ''e'', code = PStr ''c''\<rparr>],
         g_questions = Some [PStr ''q''], g_question_embeddings = Some [[1, 0]]\<rparr> \<and>
   index_built \<lparr>g_menu = Some StudentMode,
         g_prompt_library = Some [\<lparr>question = PStr ''q'', method_name = PStr ''m'', explanation = PStr ''e'', code = PStr ''c''\<rparr>],
         g_questions = Some [PStr ''q''], g_question_embeddings = Some [[1, 0]]\<rparr>"
proof -
  have run: "exec_stmts \<lparr>encode_str = (\<lambda>s. [1, 0]), encode_nonstr = (\<lambda>v. Inl TypeError)\<rparr> init_globals
      (module_stmts StudentMode [[''question'', ''method'', ''explanation'', ''code''], [''q'', ''m'', ''e'', ''c'']]) =
    Inr \<lparr>g_menu = Some StudentMode,
         g_prompt_library = Some [\<lparr>question = PStr ''q'', method_name = PStr ''m'', explanation = PStr ''e'', code = PStr ''c''\<rparr>],
         g_questions = Some [PStr ''q''], g_question_embeddings = Some [[1, 0]]\<rparr>"
    by (simp add: module_stmts_def init_globals_def load_prompt_library_def dict_row_def load_row_def
        row_get_def dict_of_def encode_item_def)
  show ?thesis
    using module_init_index_consistent [OF run] run by simp
qed

text \<open>
  C9. An exception of the loader aborts the run whatever the mode: the instructor
  and rubric views, which do not use the library, are lost with the student view.
\<close>

theorem run_script_load_error:
  assumes "load_prompt_library (in_library_csv inp) = Inl e"
  shows "run_script m fs inp = Inl e"
  using assms by (simp add: run_script_def module_init_Inl_load)

theorem run_script_load_error_witness:
  "load_prompt_library (in_library_csv \<lparr>in_mode = RubricMode, in_library_csv = [[''question''], [''q'']],
       in_upload = None, in_export_button = False, in_user_input = [], in_rubric_choice = (\<lambda>k. 2),
       in_rubric_button = True\<rparr>) = Inl (KeyError (Some ''method'')) \<and>
   run_script \<lparr>encode_str = (\<lambda>s. []), encode_nonstr = (\<lambda>v. Inl TypeError)\<rparr> Map.empty \<lparr>in_mode = RubricMode, in_library_csv = [[''question''], [''q'']],
       in_upload = None, in_export_button = False, in_user_input = [], in_rubric_choice = (\<lambda>k. 2),
       in_rubric_button = True\<rparr> = Inl (KeyError (Some ''method''))"
proof -
  have l: "load_prompt_library (in_library_csv \<lparr>in_mode = RubricMode, in_library_csv = [[''question''], [''q'']],
       in_upload = None, in_export_button = False, in_user_input = [], in_rubric_choice = (\<lambda>k. 2),
       in_rubric_button = True\<rparr>) = Inl (KeyError (Some ''method''))"
    by (simp add: load_prompt_library_def dict_row_def load_row_def row_get_def dict_of_def)
  show ?thesis
    using l run_script_load_error [OF l, of "\<lparr>encode_str = (\<lambda>s. []), encode_nonstr = (\<lambda>v. Inl TypeError)\<rparr>" Map.empty] by simp
qed

end
