(* ===== verification/Repr.thy ===== *)
theory Repr
  imports Prelude
begin

text \<open>
  Readers for the text the script prints with \<open>str\<close> and \<open>repr\<close> (\<open>py_str_nat\<close>,
  \<open>py_repr_str\<close>, \<open>py_repr_list\<close> of the prelude): a decimal numeral, a Python string
  literal in either quote with the escapes \<open>repr\<close> produces, and a list literal of such
  strings. A reader returns the value and the input after it, or \<open>None\<close> where the input
  is not of that form, as parser combinators do. They are the inverse the printing
  functions are checked against: each printed value reads back as itself, followed by
  whatever text came after it, so a printed value is never confused with its context
  (a column name holding a quote, a comma, a bracket or a newline included).
\<close>

definition is_digit :: "char \<Rightarrow> bool" where
  "is_digit c \<longleftrightarrow> (let n = (of_char c :: nat) in 48 \<le> n \<and> n \<le> 57)"

definition digits_val :: "string \<Rightarrow> nat" where
  "digits_val ds = foldl (\<lambda>acc c. 10 * acc + ((of_char c :: nat) - 48)) 0 ds"

fun drop_prefix :: "string \<Rightarrow> string \<Rightarrow> string option" where
  "drop_prefix [] s = Some s"
| "drop_prefix (c # cs) [] = None"
| "drop_prefix (c # cs) (d # ds) = (if c = d then drop_prefix cs ds else None)"

definition hex_val :: "char \<Rightarrow> nat option" where
  "hex_val c =
     (let n = (of_char c :: nat) in
      if 48 \<le> n \<and> n \<le> 57 then Some (n - 48)
      else if 97 \<le> n \<and> n \<le> 102 then Some (n - 87) else None)"

definition prepend :: "char \<Rightarrow> (string \<times> string) option \<Rightarrow> (string \<times> string) option" where
  "prepend c r = map_option (\<lambda>(s, rest). (c # s, rest)) r"

text \<open>The body of a string literal up to its closing quote \<open>q\<close>, decoding the escapes.\<close>

fun read_str_body :: "char \<Rightarrow> string \<Rightarrow> (string \<times> string) option" where
  "read_str_body q [] = None"
| "read_str_body q (c # cs) =
     (if c = q then Some ([], cs)
      else if c = CHR 0x5C then
        (case cs of
           [] \<Rightarrow> None
         | d # ds \<Rightarrow>
             if d = CHR ''t'' then prepend (CHR 0x09) (read_str_body q ds)
             else if d = CHR ''n'' then prepend (CHR 0x0A) (read_str_body q ds)
             else if d = CHR ''r'' then prepend (CHR 0x0D) (read_str_body q ds)
             else if d = CHR ''x'' then
               (case ds of
                  h1 # h2 # es \<Rightarrow>
                    (case (hex_val h1, hex_val h2) of
                       (Some a, Some b) \<Rightarrow> prepend (char_of (16 * a + b)) (read_str_body q es)
                     | _ \<Rightarrow> None)
                | _ \<Rightarrow> None)
             else prepend d (read_str_body q ds))
      else prepend c (read_str_body q cs))"

definition read_str :: "string \<Rightarrow> (string \<times> string) option" where
  "read_str s =
     (case s of
        q # cs \<Rightarrow> if q = CHR 0x27 \<or> q = CHR 0x22 then read_str_body q cs else None
      | [] \<Rightarrow> None)"

text \<open>The items of a list literal after its \<open>[\<close>: strings separated by \<open>, \<close> up to \<open>]\<close>.\<close>

function read_items :: "string \<Rightarrow> (string list \<times> string) option" where
  "read_items s =
     (case read_str s of
        None \<Rightarrow> None
      | Some (x, rest) \<Rightarrow>
          (case rest of
             c # r \<Rightarrow>
               if c = CHR '']'' then Some ([x], r)
               else if c = CHR '','' then
                 (case r of
                    d # r' \<Rightarrow> if d = CHR '' '' then map_option (\<lambda>(xs, r''). (x # xs, r'')) (read_items r')
                              else None
                  | [] \<Rightarrow> None)
               else None
           | [] \<Rightarrow> None))"
  by pat_completeness auto
termination
proof (relation "measure length")
  show "wf (measure length)"
    by simp
next
  fix s x2 x y c r d r'
  assume "read_str s = Some x2" "(x, y) = x2" "y = c # r" "r = d # r'"
  then have "read_str s = Some (x, c # d # r')"
    by simp
  moreover have body: "read_str_body q t = Some (v, rest) \<Longrightarrow> length rest < length t" for q t v rest
    by (induction q t arbitrary: v rule: read_str_body.induct)
      (fastforce simp: prepend_def split: if_splits list.splits option.splits)+
  ultimately have "length (c # d # r') < length s"
    by (auto simp: read_str_def split: list.splits if_splits dest!: body)
  then show "(r', s) \<in> measure length"
    by simp
qed

declare read_items.simps [simp del]

definition read_list :: "string \<Rightarrow> (string list \<times> string) option" where
  "read_list s =
     (case s of
        c # r \<Rightarrow>
          if c = CHR ''['' then
            (case r of
               d # r' \<Rightarrow> if d = CHR '']'' then Some ([], r') else read_items r
             | [] \<Rightarrow> None)
          else None
      | [] \<Rightarrow> None)"

lemma hex_val_hex_digit: "d < 16 \<Longrightarrow> hex_val (hex_digit d) = Some d"
  by (simp add: hex_val_def hex_digit_def Let_def)

lemma read_str_body_escape:
  assumes "q = CHR 0x27 \<or> q = CHR 0x22"
  shows "read_str_body q (py_escape q c @ rest) = prepend c (read_str_body q rest)"
proof -
  define n where "n = (of_char c :: nat)"
  have n256: "n < 256" by (simp add: n_def)
  have qf: "q \<noteq> CHR 0x5C" "q \<noteq> CHR ''t''" "q \<noteq> CHR ''n''" "q \<noteq> CHR ''r''" "q \<noteq> CHR ''x''"
    using assms by auto
  consider "c = q" | "c \<noteq> q" "c = CHR 0x5C"
    | "c \<noteq> q" "c \<noteq> CHR 0x5C" "c = CHR 0x09" | "c \<noteq> q" "c \<noteq> CHR 0x5C" "c = CHR 0x0A"
    | "c \<noteq> q" "c \<noteq> CHR 0x5C" "c = CHR 0x0D"
    | "c \<noteq> q" "c \<noteq> CHR 0x5C" "c \<noteq> CHR 0x09" "c \<noteq> CHR 0x0A" "c \<noteq> CHR 0x0D" "n < 32 \<or> n = 127"
    | "c \<noteq> q" "c \<noteq> CHR 0x5C" "c \<noteq> CHR 0x09" "c \<noteq> CHR 0x0A" "c \<noteq> CHR 0x0D" "\<not> (n < 32 \<or> n = 127)"
    by blast
  then show ?thesis
  proof cases
    case 6
    have "n div 16 < 16" "n mod 16 < 16" using n256 by simp_all
    then have "hex_val (hex_digit (n div 16)) = Some (n div 16)" "hex_val (hex_digit (n mod 16)) = Some (n mod 16)"
      by (simp_all add: hex_val_hex_digit)
    moreover have "char_of (16 * (n div 16) + n mod 16) = c"
      by (simp add: n_def)
    ultimately show ?thesis
      using 6 qf by (simp add: py_escape_def n_def [symmetric] Let_def)
  qed (use qf in \<open>simp_all add: py_escape_def n_def [symmetric] Let_def\<close>)
qed

lemma read_str_body_escaped:
  assumes "q = CHR 0x27 \<or> q = CHR 0x22"
  shows "read_str_body q (concat (map (py_escape q) s) @ q # rest) = Some (s, rest)"
  by (induction s) (simp_all add: read_str_body_escape [OF assms] prepend_def)

lemma read_str_repr: "read_str (py_repr_str s @ rest) = Some (s, rest)"
proof -
  have q: "py_quote s = CHR 0x27 \<or> py_quote s = CHR 0x22"
    by (simp add: py_quote_def)
  show ?thesis
    using read_str_body_escaped [OF q, of s rest] q by (auto simp: py_repr_str_def read_str_def Let_def)
qed

lemma py_repr_str_Cons: "\<exists>q t. py_repr_str s = q # t \<and> (q = CHR 0x27 \<or> q = CHR 0x22)"
  by (simp add: py_repr_str_def py_quote_def Let_def)

lemma read_items_last: "read_items (py_repr_str x @ CHR '']'' # rest) = Some ([x], rest)"
  by (subst read_items.simps) (simp add: read_str_repr)

lemma read_items_step:
  "read_items (py_repr_str x @ CHR '','' # CHR '' '' # r) = map_option (\<lambda>(xs, r'). (x # xs, r')) (read_items r)"
  by (subst read_items.simps) (simp add: read_str_repr)

lemma read_items_repr:
  "read_items (py_join '', '' (map py_repr_str (x # xs)) @ CHR '']'' # rest) = Some (x # xs, rest)"
proof (induction xs arbitrary: x)
  case Nil
  show ?case
    by (simp add: read_items_last)
next
  case (Cons y ys)
  have "py_join '', '' (map py_repr_str (x # y # ys)) @ CHR '']'' # rest =
      py_repr_str x @ CHR '','' # CHR '' '' # (py_join '', '' (map py_repr_str (y # ys)) @ CHR '']'' # rest)"
    by simp
  then show ?case
    by (simp only: read_items_step Cons.IH) simp
qed

lemma read_list_repr: "read_list (py_repr_list xs @ rest) = Some (xs, rest)"
proof (cases xs)
  case Nil
  then show ?thesis by (simp add: py_repr_list_def read_list_def)
next
  case (Cons x xs')
  obtain q t where "py_repr_str x = q # t" "q = CHR 0x27 \<or> q = CHR 0x22"
    using py_repr_str_Cons by blast
  then have "py_join '', '' (map py_repr_str xs) @ CHR '']'' # rest = q # (t @ drop (length (py_repr_str x)) (py_join '', '' (map py_repr_str xs) @ CHR '']'' # rest))"
    using Cons by (cases xs') auto
  then show ?thesis
    using read_items_repr [of x xs' rest] Cons \<open>q = CHR 0x27 \<or> q = CHR 0x22\<close>
    by (auto simp: py_repr_list_def read_list_def)
qed

lemma digits_val_snoc: "digits_val (ds @ [c]) = 10 * digits_val ds + ((of_char c :: nat) - 48)"
  by (simp add: digits_val_def)

lemma py_str_nat_digits: "py_str_nat n \<noteq> [] \<and> list_all is_digit (py_str_nat n) \<and> digits_val (py_str_nat n) = n"
proof (induction n rule: py_str_nat.induct)
  case (1 n)
  show ?case
  proof (cases "n < 10")
    case True
    then show ?thesis
      unfolding py_str_nat.simps [of n] by (simp add: is_digit_def digits_val_def del: py_str_nat.simps)
  next
    case False
    have "n mod 10 < 10" by simp
    then show ?thesis
      using 1 False unfolding py_str_nat.simps [of n]
      by (simp add: is_digit_def digits_val_snoc del: py_str_nat.simps)
  qed
qed

lemma read_digits:
  assumes "\<not> is_digit c"
  shows "takeWhile is_digit (py_str_nat n @ c # r) = py_str_nat n \<and>
         dropWhile is_digit (py_str_nat n @ c # r) = c # r"
  using py_str_nat_digits [of n] assms
  by (simp add: takeWhile_append2 dropWhile_append2 list_all_iff del: py_str_nat.simps)

lemma drop_prefix_append [simp]: "drop_prefix p (p @ s) = Some s"
  by (induction p) simp_all

lemma hex_digit_not_newline: "d < 16 \<Longrightarrow> hex_digit d \<noteq> CHR 0x0A"
  by (auto simp: hex_digit_def dest!: arg_cong [where f = "of_char :: char \<Rightarrow> nat"])

lemma newline_notin_py_escape: "q \<noteq> CHR 0x0A \<Longrightarrow> CHR 0x0A \<notin> set (py_escape q c)"
proof -
  have "(of_char c :: nat) < 256"
    by simp
  then have "(of_char c :: nat) div 16 < 16"
    by (simp add: div_less_iff_less_mult)
  moreover assume "q \<noteq> CHR 0x0A"
  ultimately show ?thesis
    using hex_digit_not_newline [of "of_char c div 16"] hex_digit_not_newline [of "of_char c mod 16"]
    by (auto simp: py_escape_def Let_def)
qed

lemma newline_notin_py_repr_str: "CHR 0x0A \<notin> set (py_repr_str s)"
  using newline_notin_py_escape [of "CHR 0x27"] newline_notin_py_escape [of "CHR 0x22"]
  by (auto simp: py_repr_str_def py_quote_def Let_def)

lemma set_py_join: "set (py_join sep xs) \<subseteq> set sep \<union> \<Union> (set ` set xs)"
  by (induction sep xs rule: py_join.induct) auto

lemma newline_notin_py_repr_list: "CHR 0x0A \<notin> set (py_repr_list xs)"
  using set_py_join [of "'', ''" "map py_repr_str xs"] newline_notin_py_repr_str
  by (fastforce simp: py_repr_list_def)

lemma newline_notin_py_str_nat: "CHR 0x0A \<notin> set (py_str_nat n)"
  using py_str_nat_digits [of n] by (auto simp: list_all_iff is_digit_def simp del: py_str_nat.simps)

text \<open>Python's \<open>repr\<close> of a list of strings, as the summary prints the column names,
  reads back as that list and nothing more, so two different lists never print the same.\<close>

lemma py_repr_list_roundtrip:
  "read_list (py_repr_list xs) = Some (xs, []) \<and> (py_repr_list xs = py_repr_list ys \<longleftrightarrow> xs = ys)"
proof -
  have r: "read_list (py_repr_list zs) = Some (zs, [])" for zs
    using read_list_repr [of zs "[]"] by simp
  have "xs = ys" if e: "py_repr_list xs = py_repr_list ys"
    using arg_cong [OF e, of read_list] by (simp only: r) simp
  then show ?thesis
    using r [of xs] by blast
qed

end
