(* ===== verification/Summary.thy ===== *)
theory Summary
  imports Instructor Repr
begin

text \<open>
  The dataset summary of the instructor view (\<open>src/app.py\<close>, line 75) read back. The
  f-string prints the shape with \<open>str\<close> and the two column-name lists with \<open>repr\<close>, on
  three lines. \<open>read_summary\<close> parses that text with the readers of \<open>Repr\<close>; the lemmas
  show that it recovers the row and column counts and both name lists from every summary
  the view can print, so the exported document's summary paragraph carries the table's
  shape and the names of its numeric and categorical columns exactly, whatever characters
  the names hold; and that the summary is always exactly three lines (\<open>repr\<close> escapes
  every newline in a name).
\<close>

definition read_summary :: "string \<Rightarrow> (nat \<times> nat \<times> string list \<times> string list) option" where
  "read_summary s =
     Option.bind (drop_prefix ''Rows: '' s) (\<lambda>r1.
       if takeWhile is_digit r1 = [] then None else
       Option.bind (drop_prefix '', Columns: '' (dropWhile is_digit r1)) (\<lambda>r3.
         if takeWhile is_digit r3 = [] then None else
         Option.bind (drop_prefix (CHR 0x0A # ''Numerical: '') (dropWhile is_digit r3)) (\<lambda>r5.
         Option.bind (read_list r5) (\<lambda>(nums, r6).
         Option.bind (drop_prefix (CHR 0x0A # ''Categorical: '') r6) (\<lambda>r7.
         Option.bind (read_list r7) (\<lambda>(cats, r8).
           if r8 = [] then Some (digits_val (takeWhile is_digit r1), digits_val (takeWhile is_digit r3), nums, cats)
           else None))))))"

definition summary_lines :: "string \<Rightarrow> nat" where
  "summary_lines s = Suc (length (filter (\<lambda>c. c = CHR 0x0A) s))"

lemma read_summary_print:
  "read_summary
     (''Rows: '' @ py_str_nat r @ '', Columns: '' @ py_str_nat c @
      [CHR 0x0A] @ ''Numerical: '' @ py_repr_list nums @ [CHR 0x0A] @ ''Categorical: '' @ py_repr_list cats) =
   Some (r, c, nums, cats)"
proof -
  have nd: "\<not> is_digit (CHR '','')" "\<not> is_digit (CHR 0x0A)"
    by (simp_all add: is_digit_def)
  have "read_list (py_repr_list cats) = Some (cats, [])"
    using read_list_repr [of cats "[]"] by simp
  then show ?thesis
    using read_digits [OF nd(1), of r] read_digits [OF nd(2), of c] py_str_nat_digits [of r]
      py_str_nat_digits [of c]
    by (simp add: read_summary_def read_list_repr del: py_str_nat.simps)
qed

lemma newline_free_filter: "CHR 0x0A \<notin> set s \<Longrightarrow> filter (\<lambda>c. c = CHR 0x0A) s = []"
  by (auto simp: filter_empty_conv)

text \<open>
  C17. Round trip: the summary the instructor view prints (and exports) reads back as
  the table's row count, its column count, and the names of its numeric and of its
  categorical columns in column order, whatever characters the names contain; and it is
  always exactly three lines, since \<open>repr\<close> prints a newline inside a column name as
  the escape \<open>\n\<close>, never as a line break.
\<close>

theorem dataset_summary_roundtrip:
  "read_summary (dataset_summary df) =
     Some (df_nrows df, length (df_columns df), select_dtypes df Number, select_dtypes df Object) \<and>
   summary_lines (dataset_summary df) = 3"
proof
  show "read_summary (dataset_summary df) =
      Some (df_nrows df, length (df_columns df), select_dtypes df Number, select_dtypes df Object)"
    unfolding dataset_summary_def by (rule read_summary_print)
  show "summary_lines (dataset_summary df) = 3"
    by (simp add: summary_lines_def dataset_summary_def newline_free_filter newline_notin_py_str_nat
        newline_notin_py_repr_list del: py_str_nat.simps)
qed

end
