(* ===== verification/Session.thy ===== *)
theory Session
  imports Script
begin

text \<open>
  A Streamlit session of the script \<open>src/app.py\<close>: the sequence of reruns a user's
  interactions cause. Streamlit reruns the whole script on every interaction, from fresh
  module globals, with the current values of the widgets; \<open>st.button\<close> is \<open>True\<close> only in
  the rerun its click triggers. What persists between reruns is the widget values and
  the working directory, where the export saves \<open>project_assignment.docx\<close> (line 33).
  \<^item> \<open>session\<close> is that state: the widget values (\<open>ui_inputs\<close>, buttons released), the
    files, and the outcome of the last run (\<open>None\<close> before the first).
  \<^item> \<open>event\<close> is one interaction: choosing a mode, typing a question, choosing a level
    (the select box offers only the five levels), uploading or removing a table,
    clicking one of the two buttons, the library file being edited on disk, or a plain
    rerun (a page refresh). \<open>apply_event\<close> is its effect on the widget values.
  \<^item> \<open>session_step\<close> is one rerun (\<open>run_script\<close> of \<open>Script\<close>) after an event; the files are
    those the run leaves (unchanged when it raises); \<open>session_run\<close> runs a list of events.
  \<^item> \<open>reachable_session\<close> is the set of states a session can reach from its start, by any
    events: an inductive predicate, and the invariants are proved by rule induction on it.
  Streamlit's removal of the state of widgets a run did not call is \<open>cleanup_widgets\<close>
  over the widgets \<open>rendered\<close> by the run: a hidden view's widgets are back at their
  defaults when it is shown again.
  The lemmas show that between reruns both buttons are released and every chosen level is
  one of the five; the theorems, that only a click on the export button writes a file,
  that every file a session writes is an assignment document for some uploaded table, and
  that from every reachable state choosing the rubric and clicking its button shows a
  total between 0 and 12.
\<close>

record session =
  s_inputs :: ui_inputs
  s_files :: files
  s_shown :: "view_output result option"

datatype event =
    ChooseMode mode
  | TypeQuestion string
  | PickLevel string nat
  | UploadTable "dataframe option"
  | ClickExport
  | ClickCalculate
  | EditLibrary "string list list"
  | Rerun

fun apply_event :: "event \<Rightarrow> ui_inputs \<Rightarrow> ui_inputs" where
  "apply_event (ChooseMode md) inp = inp\<lparr>in_mode := md\<rparr>"
| "apply_event (TypeQuestion q) inp = inp\<lparr>in_user_input := q\<rparr>"
| "apply_event (PickLevel k i) inp =
     (if i < length rubric_levels then inp\<lparr>in_rubric_choice := (in_rubric_choice inp)(k := i)\<rparr> else inp)"
| "apply_event (UploadTable u) inp = inp\<lparr>in_upload := u\<rparr>"
| "apply_event ClickExport inp = inp\<lparr>in_export_button := True\<rparr>"
| "apply_event ClickCalculate inp = inp\<lparr>in_rubric_button := True\<rparr>"
| "apply_event (EditLibrary csv) inp = inp\<lparr>in_library_csv := csv\<rparr>"
| "apply_event Rerun inp = inp"

definition release_buttons :: "ui_inputs \<Rightarrow> ui_inputs" where
  "release_buttons inp = inp\<lparr>in_export_button := False, in_rubric_button := False\<rparr>"

text \<open>
  The widgets that keep a value between reruns, and which of them a rerun calls: the
  radio (line 40) always; past the module statements, only the widgets of the chosen
  branch (\<open>st.file_uploader\<close> at line 50, \<open>st.text_input\<close> at 83, the three
  \<open>st.selectbox\<close>es at 107). When a module statement raises, the run stops before any
  branch; within a branch the widget calls come before every statement that can raise. At the end of a run Streamlit deletes the state of every widget the run did not
  call, so the next call shows the widget's default again (no upload, an empty question,
  \<open>index=2\<close>).
\<close>

datatype widget_key = KUploader | KQuestion | KLevel string

definition module_ok :: "embedding_model \<Rightarrow> ui_inputs \<Rightarrow> bool" where
  "module_ok m inp =
     (case exec_stmts m init_globals (module_stmts (in_mode inp) (in_library_csv inp)) of
        Inl e \<Rightarrow> False
      | Inr g \<Rightarrow> True)"

fun rendered :: "embedding_model \<Rightarrow> ui_inputs \<Rightarrow> widget_key \<Rightarrow> bool" where
  "rendered m inp KUploader = (module_ok m inp \<and> in_mode inp = InstructorMode)"
| "rendered m inp KQuestion = (module_ok m inp \<and> in_mode inp = StudentMode)"
| "rendered m inp (KLevel k) = (module_ok m inp \<and> in_mode inp = RubricMode \<and> k \<in> set rubric_criteria)"

definition cleanup_widgets :: "(widget_key \<Rightarrow> bool) \<Rightarrow> ui_inputs \<Rightarrow> ui_inputs" where
  "cleanup_widgets shown inp =
     inp\<lparr>in_upload := (if shown KUploader then in_upload inp else None),
         in_user_input := (if shown KQuestion then in_user_input inp else []),
         in_rubric_choice := (\<lambda>k. if shown (KLevel k) then in_rubric_choice inp k else selectbox_default)\<rparr>"

definition session_step :: "embedding_model \<Rightarrow> session \<Rightarrow> event \<Rightarrow> session" where
  "session_step m s ev =
     (let inp = apply_event ev (s_inputs s);
          r = run_script m (s_files s) inp
      in \<lparr>s_inputs = cleanup_widgets (rendered m inp) (release_buttons inp),
          s_files = (case r of Inl e \<Rightarrow> s_files s | Inr (out, fs') \<Rightarrow> fs'),
          s_shown = Some (map_sum id fst r)\<rparr>)"

fun session_run :: "embedding_model \<Rightarrow> session \<Rightarrow> event list \<Rightarrow> session" where
  "session_run m s [] = s"
| "session_run m s (ev # evs) = session_run m (session_step m s ev) evs"

text \<open>
  The start of a session: the radio at its first option (the instructor view), no
  question, no upload, every select box at \<open>index=2\<close>, the library file as it is on disk,
  an empty working directory, nothing shown yet.
\<close>

definition init_session :: "string list list \<Rightarrow> session" where
  "init_session csv =
     \<lparr>s_inputs = \<lparr>in_mode = InstructorMode, in_library_csv = csv, in_upload = None,
                  in_export_button = False, in_user_input = [],
                  in_rubric_choice = (\<lambda>k. selectbox_default), in_rubric_button = False\<rparr>,
      s_files = Map.empty, s_shown = None\<rparr>"

text \<open>A concrete session to instantiate the lemmas on: a one-entry library and a small table.\<close>

definition demo_model :: embedding_model where
  "demo_model = \<lparr>encode_str = (\<lambda>s. [1, 0]), encode_nonstr = (\<lambda>v. Inl TypeError)\<rparr>"

definition demo_csv :: "string list list" where
  "demo_csv = [[''question'', ''method'', ''explanation'', ''code''], [''q'', ''m'', ''e'', ''c'']]"

definition demo_table :: dataframe where
  "demo_table = \<lparr>df_nrows = 3, df_columns = [(''score'', Number), (''group'', Object)]\<rparr>"

inductive reachable_session :: "embedding_model \<Rightarrow> string list list \<Rightarrow> session \<Rightarrow> bool"
  for m :: embedding_model and csv :: "string list list" where
  start: "reachable_session m csv (init_session csv)"
| step: "reachable_session m csv s \<Longrightarrow> reachable_session m csv (session_step m s ev)"

text \<open>The invariant of the widget values between reruns.\<close>

definition session_inv :: "session \<Rightarrow> bool" where
  "session_inv s \<longleftrightarrow>
     \<not> in_export_button (s_inputs s) \<and> \<not> in_rubric_button (s_inputs s) \<and>
     (\<forall>k. in_rubric_choice (s_inputs s) k < length rubric_levels)"

lemma run_script_files:
  assumes "run_script m fs inp = Inr (out, fs')"
  shows "fs' = fs \<or>
         (in_export_button inp \<and> (\<exists>df doc. in_upload inp = Some df \<and>
            fs' = fs(''project_assignment.docx'' \<mapsto> doc) \<and>
            doc_bullets doc = instructor_suggestions df \<and> doc ! 3 = Paragraph (dataset_summary df) None))"
proof -
  obtain g where g: "exec_stmts m init_globals (module_stmts (in_mode inp) (in_library_csv inp)) = Inr g"
    and menu: "g_menu g = Some (in_mode inp)"
    using assms by (auto simp: run_script_def rbind_eq_Inr_iff module_init_Inr_iff)
  show ?thesis
  proof (cases "in_mode inp")
    case InstructorMode
    then have "map_sum id (\<lambda>(ws, y). (InstructorOut ws, y))
        (instructor_view fs (in_upload inp) (in_export_button inp)) = Inr (out, fs')"
      using assms g menu by (simp add: run_script_def)
    then obtain ws where "instructor_view fs (in_upload inp) (in_export_button inp) = Inr (ws, fs')"
      by (cases "instructor_view fs (in_upload inp) (in_export_button inp)") auto
    then show ?thesis
      by (rule instructor_view_files)
  qed (use assms g menu in \<open>auto simp: run_script_def map_sum_id_eq_Inr\<close>)
qed

lemma session_step_inputs:
  "s_inputs (session_step m s ev) =
     cleanup_widgets (rendered m (apply_event ev (s_inputs s))) (release_buttons (apply_event ev (s_inputs s)))"
  by (simp add: session_step_def Let_def)

lemma session_step_files:
  "s_files (session_step m s ev) =
     (case run_script m (s_files s) (apply_event ev (s_inputs s)) of Inl e \<Rightarrow> s_files s | Inr (out, fs') \<Rightarrow> fs')"
  by (simp add: session_step_def Let_def)

lemma session_inv_step: "session_inv s \<Longrightarrow> session_inv (session_step m s ev)"
  by (cases ev)
    (simp_all add: session_inv_def session_step_inputs release_buttons_def cleanup_widgets_def
      selectbox_default_def rubric_levels_def)

lemma reachable_session_inv:
  assumes "reachable_session m csv s"
  shows "session_inv s"
  using assms
proof (induction rule: reachable_session.induct)
  case start
  show ?case
    by (simp add: session_inv_def init_session_def selectbox_default_def rubric_levels_def)
next
  case (step s ev)
  from step.IH show ?case
    by (rule session_inv_step)
qed

lemma session_step_files_no_export:
  assumes "\<not> in_export_button (apply_event ev (s_inputs s))"
  shows "s_files (session_step m s ev) = s_files s"
proof (cases "run_script m (s_files s) (apply_event ev (s_inputs s))")
  case (Inl e)
  then show ?thesis
    by (simp add: session_step_files)
next
  case (Inr r)
  then obtain out fs' where r: "run_script m (s_files s) (apply_event ev (s_inputs s)) = Inr (out, fs')"
    by (cases r) auto
  then have "fs' = s_files s"
    using run_script_files [OF r] assms by blast
  with r show ?thesis
    by (simp add: session_step_files)
qed

lemma apply_event_buttons:
  "session_inv s \<Longrightarrow> in_export_button (apply_event ev (s_inputs s)) = (ev = ClickExport) \<and>
     in_rubric_button (apply_event ev (s_inputs s)) = (ev = ClickCalculate)"
  by (cases ev) (simp_all add: session_inv_def)

text \<open>
  C20. Only a click on the export button writes to the working directory: after any
  other interaction the files are as they were.
\<close>

theorem session_files_only_export:
  assumes "reachable_session m csv s" and "ev \<noteq> ClickExport"
  shows "s_files (session_step m s ev) = s_files s"
  using apply_event_buttons [OF reachable_session_inv [OF assms(1)], of ev] assms(2)
  by (intro session_step_files_no_export) simp

text \<open>
  C21. Every file a session writes is an assignment document saved under
  \<open>project_assignment.docx\<close>: its bullets are the suggestions for some uploaded table and its
  summary paragraph is that table's summary.
\<close>

theorem session_files_assignment:
  assumes "reachable_session m csv s"
  shows "dom (s_files s) \<subseteq> {''project_assignment.docx''} \<and>
         (case s_files s ''project_assignment.docx'' of
            None \<Rightarrow> True
          | Some doc \<Rightarrow> \<exists>df. doc_bullets doc = instructor_suggestions df \<and>
                             doc ! 3 = Paragraph (dataset_summary df) None)"
  using assms
proof (induction rule: reachable_session.induct)
  case start
  show ?case
    by (simp add: init_session_def)
next
  case (step s ev)
  show ?case
  proof (cases "run_script m (s_files s) (apply_event ev (s_inputs s))")
    case (Inl e)
    then show ?thesis
      using step.IH by (simp add: session_step_files)
  next
    case (Inr r)
    then obtain out fs' where r: "run_script m (s_files s) (apply_event ev (s_inputs s)) = Inr (out, fs')"
      by (cases r) auto
    from run_script_files [OF r] consider (same) "fs' = s_files s"
      | (saved) df doc where "fs' = (s_files s)(''project_assignment.docx'' \<mapsto> doc)"
          "doc_bullets doc = instructor_suggestions df" "doc ! 3 = Paragraph (dataset_summary df) None"
      by blast
    then show ?thesis
    proof cases
      case same
      then show ?thesis
        using r step.IH by (simp add: session_step_files)
    next
      case saved
      have "dom fs' \<subseteq> {''project_assignment.docx''}"
        using step.IH saved(1) by simp
      moreover have "s_files (session_step m s ev) = fs'"
        using r by (simp add: session_step_files)
      moreover have "fs' ''project_assignment.docx'' = Some doc"
        using saved(1) by simp
      ultimately show ?thesis
        using saved(2,3) by auto
    qed
  qed
qed

lemma session_step_shown:
  "s_shown (session_step m s ev) = Some (map_sum id fst (run_script m (s_files s) (apply_event ev (s_inputs s))))"
  by (simp add: session_step_def Let_def)

text \<open>
  C22. The grader always gets a total: from every state a session can reach, if the
  module statements succeed on the library file, choosing the rubric and clicking its
  button shows a total between 0 and 12, whatever levels were chosen before.
\<close>

theorem session_rubric_total:
  assumes "reachable_session m csv s"
    and "\<exists>g. exec_stmts m init_globals (module_stmts RubricMode (in_library_csv (s_inputs s))) = Inr g"
  shows "\<exists>t. s_shown (session_run m s [ChooseMode RubricMode, ClickCalculate]) = Some (Inr (RubricOut (Some t))) \<and>
             0 \<le> t \<and> t \<le> 12"
proof -
  let ?s1 = "session_step m s (ChooseMode RubricMode)"
  have "reachable_session m csv ?s1"
    using assms(1) by (rule reachable_session.step)
  then have inv: "session_inv ?s1"
    by (rule reachable_session_inv)
  let ?inp = "(s_inputs ?s1)\<lparr>in_rubric_button := True\<rparr>"
  let ?c = "in_rubric_choice (s_inputs ?s1)"
  have choice: "\<And>k. ?c k < length rubric_levels"
    using inv by (simp add: session_inv_def)
  have mode: "in_mode ?inp = RubricMode" "in_library_csv ?inp = in_library_csv (s_inputs s)"
    by (simp_all add: session_step_inputs cleanup_widgets_def release_buttons_def)
  obtain g where "exec_stmts m init_globals (module_stmts RubricMode (in_library_csv (s_inputs s))) = Inr g"
    using assms(2) by blast
  then have g: "exec_stmts m init_globals (module_stmts (in_mode ?inp) (in_library_csv ?inp)) = Inr g"
    and menu: "g_menu g = Some RubricMode"
    using mode by (auto simp: module_init_Inr_iff)
  have "rubric_view ?c True = Inr (Some (\<Sum>k \<leftarrow> rubric_criteria. int (?c k)))"
    using choice by (intro rubric_view_button)
  then have run: "run_script m fs ?inp = Inr (RubricOut (Some (\<Sum>k \<leftarrow> rubric_criteria. int (?c k))), fs)" for fs
    using g menu by (simp add: run_script_def)
  have "0 \<le> (\<Sum>k \<leftarrow> rubric_criteria. int (?c k)) \<and>
      (\<Sum>k \<leftarrow> rubric_criteria. int (?c k)) \<le> 4 * int (length rubric_criteria)"
    using choice by (intro sum_list_choice_bounds) (simp add: rubric_levels_def eval_nat_numeral)
  then show ?thesis
    using run by (simp add: session_step_shown rubric_criteria_def)
qed

lemma demo_reachable:
  "reachable_session demo_model demo_csv (init_session demo_csv)"
  "reachable_session demo_model demo_csv
     (session_step demo_model (session_step demo_model (init_session demo_csv) (UploadTable (Some demo_table))) ClickExport)"
  by (blast intro: reachable_session.intros)+

theorem session_files_only_export_witness:
  "reachable_session demo_model demo_csv (init_session demo_csv) \<and> UploadTable (Some demo_table) \<noteq> ClickExport \<and>
   s_files (session_step demo_model (init_session demo_csv) (UploadTable (Some demo_table))) = Map.empty"
  using session_files_only_export [OF demo_reachable(1), of "UploadTable (Some demo_table)"] demo_reachable(1)
  by (simp add: init_session_def)

theorem session_files_assignment_witness:
  "reachable_session demo_model demo_csv
     (session_step demo_model (session_step demo_model (init_session demo_csv) (UploadTable (Some demo_table))) ClickExport) \<and>
   s_files (session_step demo_model (session_step demo_model (init_session demo_csv) (UploadTable (Some demo_table))) ClickExport)
     ''project_assignment.docx'' \<noteq> None \<and>
   (case s_files (session_step demo_model (session_step demo_model (init_session demo_csv) (UploadTable (Some demo_table))) ClickExport)
           ''project_assignment.docx'' of
      None \<Rightarrow> True
    | Some doc \<Rightarrow> \<exists>df. doc_bullets doc = instructor_suggestions df \<and> doc ! 3 = Paragraph (dataset_summary df) None)"
proof -
  have "s_files (session_step demo_model (session_step demo_model (init_session demo_csv) (UploadTable (Some demo_table))) ClickExport)
     ''project_assignment.docx'' \<noteq> None"
    by (simp add: session_step_def init_session_def demo_csv_def demo_model_def run_script_def module_stmts_def
        init_globals_def load_prompt_library_def dict_row_def load_row_def row_get_def dict_of_def encode_item_def
        instructor_view_def export_to_word_def open_read_def release_buttons_def cleanup_widgets_def module_ok_def
        Let_def)
  then show ?thesis
    using session_files_assignment [OF demo_reachable(2)] demo_reachable(2) by simp
qed

theorem session_rubric_total_witness:
  "reachable_session demo_model demo_csv (init_session demo_csv) \<and>
   (\<exists>g. exec_stmts demo_model init_globals (module_stmts RubricMode (in_library_csv (s_inputs (init_session demo_csv)))) = Inr g) \<and>
   (\<exists>t. s_shown (session_run demo_model (init_session demo_csv) [ChooseMode RubricMode, ClickCalculate]) =
          Some (Inr (RubricOut (Some t))) \<and> 0 \<le> t \<and> t \<le> 12)"
proof -
  have g: "\<exists>g. exec_stmts demo_model init_globals (module_stmts RubricMode (in_library_csv (s_inputs (init_session demo_csv)))) = Inr g"
    by (simp add: init_session_def demo_csv_def demo_model_def module_stmts_def init_globals_def load_prompt_library_def
        dict_row_def load_row_def row_get_def dict_of_def encode_item_def)
  show ?thesis
    using session_rubric_total [OF demo_reachable(1) g] demo_reachable(1) g by blast
qed

end
