(* ===== verification/Concurrency.thy ===== *)
theory Concurrency
  imports Instructor
begin

text \<open>
  Sessions exporting at the same time. Streamlit runs each browser session's rerun in its
  own thread of one server process, and all of them share the working directory. The
  export of the instructor view touches the fixed path \<open>project_assignment.docx\<close> in
  three statements, none of them atomic with respect to the others:
  \<^item> \<open>doc.save(file_path)\<close> inside \<open>export_to_word\<close> (\<open>src/app.py\<close>, line 33) opens the
    path for writing, which creates it or truncates it in place, and then writes the
    document's bytes: \<open>SaveStart\<close> leaves the path holding a partly written document of
    that session (\<open>Partial\<close>), \<open>SaveEnd\<close> leaves it holding the whole document
    (\<open>Written\<close>, the document \<open>export_to_word\<close> builds);
  \<^item> \<open>open(file_path, "rb")\<close> (line 77) raises \<open>FileNotFoundError\<close> when the path does
    not exist, and otherwise gives the session a handle on the file (\<open>OpenDoc\<close>);
  \<^item> \<open>st.download_button(..., data=f)\<close> (line 78) reads the file through that handle
    (\<open>ReadDoc\<close>). A save in place truncates the same file, so the read sees whatever the
    path holds at the time of the read, not at the time of the open.
  A session runs \<open>SaveStart\<close>, \<open>SaveEnd\<close>, \<open>OpenDoc\<close>, \<open>ReadDoc\<close> in this order;
  \<open>exec_export_op\<close> runs one step
  of any session on the shared state (\<open>export_state\<close>: the working directory, which
  sessions hold an open handle, what each session's download got), \<open>run_export_ops\<close> runs
  an interleaving, given as one list. Every other statement of a rerun works on the
  session's own widget state or only reads \<open>prompt_library.csv\<close>, which no session
  writes, so these steps are all the shared state the sessions have. Reads and each of
  the two save phases are taken as atomic steps; finer splits of the bytes written only
  add more partial contents. \<open>last_written\<close> is the specification: the content left by
  the last write step of a sequence. The theorem characterises every session's download
  in every interleaving of any number of sessions as the content of the last write step
  before its read: its own document, another session's, or a partly written one.
\<close>

datatype file_content = Written "doc_block list" | Partial nat

type_synonym store = "string \<rightharpoonup> file_content"

record export_state =
  ex_files :: store
  ex_open :: "nat \<Rightarrow> bool"
  ex_got :: "nat \<Rightarrow> file_content result option"

datatype export_op = SaveStart nat | SaveEnd nat | OpenDoc nat | ReadDoc nat

definition saved_files :: "(nat \<Rightarrow> dataframe) \<Rightarrow> nat \<Rightarrow> store" where
  "saved_files tbl i =
     map_option Written \<circ> fst (export_to_word Map.empty (dataset_summary (tbl i)) (instructor_suggestions (tbl i)))"

fun exec_export_op :: "(nat \<Rightarrow> dataframe) \<Rightarrow> export_state \<Rightarrow> export_op \<Rightarrow> export_state" where
  "exec_export_op tbl st (SaveStart i) =
     st\<lparr>ex_files := (ex_files st)(''project_assignment.docx'' \<mapsto> Partial i)\<rparr>"
| "exec_export_op tbl st (SaveEnd i) = st\<lparr>ex_files := ex_files st ++ saved_files tbl i\<rparr>"
| "exec_export_op tbl st (OpenDoc i) =
     (case ex_files st ''project_assignment.docx'' of
        None \<Rightarrow> st\<lparr>ex_got := (ex_got st)(i := Some (Inl (FileNotFoundError ''project_assignment.docx'')))\<rparr>
      | Some c \<Rightarrow> st\<lparr>ex_open := (ex_open st)(i := True)\<rparr>)"
| "exec_export_op tbl st (ReadDoc i) =
     (if ex_open st i
      then (case ex_files st ''project_assignment.docx'' of
              None \<Rightarrow> st
            | Some c \<Rightarrow> st\<lparr>ex_got := (ex_got st)(i := Some (Inr c))\<rparr>)
      else st)"

fun run_export_ops :: "(nat \<Rightarrow> dataframe) \<Rightarrow> export_state \<Rightarrow> export_op list \<Rightarrow> export_state" where
  "run_export_ops tbl st [] = st"
| "run_export_ops tbl st (op # ops) = run_export_ops tbl (exec_export_op tbl st op) ops"

definition downloaded :: "(nat \<Rightarrow> dataframe) \<Rightarrow> store \<Rightarrow> export_op list \<Rightarrow> nat \<Rightarrow> file_content result option" where
  "downloaded tbl fs ops i =
     ex_got (run_export_ops tbl \<lparr>ex_files = fs, ex_open = (\<lambda>j. False), ex_got = (\<lambda>j. None)\<rparr> ops) i"

fun last_written :: "(nat \<Rightarrow> dataframe) \<Rightarrow> file_content option \<Rightarrow> export_op list \<Rightarrow> file_content option" where
  "last_written tbl c [] = c"
| "last_written tbl c (SaveStart j # ops) = last_written tbl (Some (Partial j)) ops"
| "last_written tbl c (SaveEnd j # ops) = last_written tbl (saved_files tbl j ''project_assignment.docx'') ops"
| "last_written tbl c (OpenDoc j # ops) = last_written tbl c ops"
| "last_written tbl c (ReadDoc j # ops) = last_written tbl c ops"

text \<open>Two uploaded tables with different suggestions: two numeric columns, two text columns.\<close>

definition race_tables :: "nat \<Rightarrow> dataframe" where
  "race_tables i =
     (if i = 0 then \<lparr>df_nrows = 10, df_columns = [(''height'', Number), (''weight'', Number)]\<rparr>
      else \<lparr>df_nrows = 10, df_columns = [(''city'', Object), (''brand'', Object)]\<rparr>)"

lemma run_export_ops_append:
  "run_export_ops tbl st (xs @ ys) = run_export_ops tbl (run_export_ops tbl st xs) ys"
  by (induction xs arbitrary: st) simp_all

lemma last_written_append:
  "last_written tbl c (xs @ ys) = last_written tbl (last_written tbl c xs) ys"
  by (induction tbl c xs rule: last_written.induct) simp_all

lemma saved_files_path:
  "saved_files tbl i p =
     (if p = ''project_assignment.docx''
      then Some (Written (the (fst (export_to_word Map.empty (dataset_summary (tbl i))
                                     (instructor_suggestions (tbl i))) ''project_assignment.docx'')))
      else None)"
  by (simp add: saved_files_def export_to_word_def Let_def)

lemma last_written_not_None:
  "c \<noteq> None \<Longrightarrow> last_written tbl c ops \<noteq> None"
  by (induction tbl c ops rule: last_written.induct) (simp_all add: saved_files_path)

lemma last_written_SaveEnd:
  "SaveEnd i \<in> set ops \<Longrightarrow> last_written tbl c ops \<noteq> None"
proof (induction tbl c ops rule: last_written.induct)
  case (3 tbl c j ops)
  then show ?case
    using last_written_not_None [of "saved_files tbl j ''project_assignment.docx''" tbl ops]
    by (auto simp: saved_files_path)
qed auto

text \<open>The shared path after a sequence of steps holds what its last write step left.\<close>

lemma run_export_ops_files:
  "ex_files (run_export_ops tbl st ops) ''project_assignment.docx'' =
     last_written tbl (ex_files st ''project_assignment.docx'') ops"
proof (induction ops arbitrary: st)
  case (Cons op ops)
  then show ?case
    by (cases op) (simp_all add: map_add_def saved_files_path split: option.split)
qed simp

lemma run_export_ops_open:
  "OpenDoc i \<notin> set ops \<Longrightarrow> ex_open (run_export_ops tbl st ops) i = ex_open st i"
proof (induction ops arbitrary: st)
  case (Cons op ops)
  then show ?case
    by (cases op) (simp_all split: option.split)
qed simp

lemma run_export_ops_got:
  assumes "ex_files st ''project_assignment.docx'' \<noteq> None" and "ReadDoc i \<notin> set ops"
  shows "ex_got (run_export_ops tbl st ops) i = ex_got st i"
  using assms
proof (induction ops arbitrary: st)
  case (Cons op ops)
  then show ?case
    by (cases op) (auto simp: map_add_def saved_files_path split: option.split)
qed simp

text \<open>
  C25. Concurrent exports race on the shared file: in any interleaving of the steps of any
  number of sessions, a session that has finished its save, opens the file and then reads
  it downloads exactly what the last write step before its read left there: its own
  document only when no other session's save step falls between its own save and its read;
  otherwise another session's whole document, or a partly written one when that save has
  truncated the file but not finished writing it.
\<close>

theorem concurrent_export_download:
  assumes "SaveEnd i \<in> set p1" and "OpenDoc i \<notin> set p2" and "ReadDoc i \<notin> set p3"
  shows "\<exists>c. last_written tbl (fs ''project_assignment.docx'') (p1 @ p2) = Some c \<and>
             downloaded tbl fs (p1 @ OpenDoc i # p2 @ ReadDoc i # p3) i = Some (Inr c)"
proof -
  let ?st0 = "\<lparr>ex_files = fs, ex_open = (\<lambda>j. False), ex_got = (\<lambda>j. None)\<rparr>"
  let ?st1 = "run_export_ops tbl ?st0 p1"
  let ?st2 = "run_export_ops tbl (exec_export_op tbl ?st1 (OpenDoc i)) p2"
  have f1: "ex_files ?st1 ''project_assignment.docx'' \<noteq> None"
    using last_written_SaveEnd [OF assms(1)] by (simp add: run_export_ops_files)
  then have o1: "ex_open (exec_export_op tbl ?st1 (OpenDoc i)) i"
    by (auto split: option.split)
  have o2: "ex_open ?st2 i"
    using o1 by (simp add: run_export_ops_open [OF assms(2)])
  obtain c where c: "last_written tbl (fs ''project_assignment.docx'') (p1 @ p2) = Some c"
    using last_written_SaveEnd [of i "p1 @ p2"] assms(1) by fastforce
  have f2: "ex_files ?st2 ''project_assignment.docx'' = Some c"
    using c f1 by (auto simp: run_export_ops_files last_written_append split: option.splits)
  let ?st3 = "exec_export_op tbl ?st2 (ReadDoc i)"
  have g3: "ex_got ?st3 i = Some (Inr c)"
    using o2 f2 by simp
  have "ex_files ?st3 ''project_assignment.docx'' \<noteq> None"
    using o2 f2 by simp
  then have "ex_got (run_export_ops tbl ?st3 p3) i = Some (Inr c)"
    using g3 run_export_ops_got [OF _ assms(3)] by simp
  then show ?thesis
    using c by (simp add: downloaded_def run_export_ops_append)
qed

theorem concurrent_export_download_witness:
  "SaveEnd 0 \<in> set [SaveStart 0, SaveEnd 0] \<and> OpenDoc 0 \<notin> set [SaveStart 1] \<and>
   ReadDoc 0 \<notin> set [SaveEnd 1, OpenDoc 1, ReadDoc 1] \<and>
   downloaded race_tables Map.empty
     [SaveStart 0, SaveEnd 0, OpenDoc 0, SaveStart 1, ReadDoc 0, SaveEnd 1, OpenDoc 1, ReadDoc 1] 0 =
     Some (Inr (Partial 1))"
proof -
  have h: "SaveEnd 0 \<in> set [SaveStart 0, SaveEnd 0]" "OpenDoc 0 \<notin> set [SaveStart 1]"
    "ReadDoc 0 \<notin> set [SaveEnd 1, OpenDoc 1, ReadDoc 1]"
    by simp_all
  show ?thesis
    using concurrent_export_download [OF h, of race_tables Map.empty] h by simp
qed

end
