(* ===== verification/CsvReader.thy ===== *)
theory CsvReader
  imports Library "HOL-Library.While_Combinator"
begin

text \<open>
  \<open>csv.DictReader\<close> as the loader of \<open>src/app.py\<close> (lines 12--13) iterates it, step by
  step as CPython's \<open>csv.py\<close> writes it, against the list model \<open>dict_reader\<close> of
  \<open>Library\<close>.
  \<^item> \<open>dict_reader_state\<close> is the reader object: \<open>_fieldnames\<close> (\<open>None\<close> until read), the
    records the underlying \<open>csv.reader\<close> has not returned yet, and \<open>line_num\<close> (one line
    per record: fields spanning lines are not modelled). \<open>dict_reader_open\<close> is
    \<open>DictReader(f)\<close>; \<open>reader_next\<close> is \<open>next(self.reader)\<close>, \<open>None\<close> for its
    \<open>StopIteration\<close>; \<open>read_fieldnames\<close> is the side effect of the \<open>fieldnames\<close> property
    (the first record, or nothing on an empty file).
  \<^item> \<open>skip_blanks\<close> is the loop \<open>while row == []: row = next(self.reader)\<close> of
    \<open>__next__\<close>, kept as a loop (\<open>while_option\<close>): its outer \<open>option\<close> is whether the loop
    stops, its inner one whether \<open>next\<close> raised \<open>StopIteration\<close> inside it.
  \<^item> \<open>dict_reader_next\<close> is \<open>__next__\<close>: read the field names on the first call, read a
    record, skip blank ones, and build the dict (\<open>dict_row\<close>, restkey and restval
    \<open>None\<close>); \<open>DRStop\<close> is its \<open>StopIteration\<close>.
  \<^item> \<open>load_prompt_library_loop\<close> is the body of \<open>load_prompt_library\<close> (lines 9--20):
    \<open>for row in reader: data.append(...)\<close>, with \<open>load_row\<close> for the four subscripts,
    defined as a \<open>partial_function (option)\<close> so that \<open>None\<close> would be a loop that does
    not end; \<open>load_prompt_library_iter\<close> runs it on a freshly opened reader.
  The lemmas show that \<open>__next__\<close> always returns and consumes a record for every row it
  yields, that the loop ends from every reader state, and that it computes exactly the
  list model \<open>load_prompt_library\<close> of \<open>Library\<close>, which the loader theorems are stated
  over.
\<close>

record dict_reader_state =
  dr_fieldnames :: "string list option"
  dr_rows :: "string list list"
  dr_line_num :: nat

definition dict_reader_open :: "string list list \<Rightarrow> dict_reader_state" where
  "dict_reader_open records = \<lparr>dr_fieldnames = None, dr_rows = records, dr_line_num = 0\<rparr>"

definition reader_next :: "dict_reader_state \<Rightarrow> (string list \<times> dict_reader_state) option" where
  "reader_next st =
     (case dr_rows st of
        [] \<Rightarrow> None
      | r # rs \<Rightarrow> Some (r, st\<lparr>dr_rows := rs, dr_line_num := Suc (dr_line_num st)\<rparr>))"

definition read_fieldnames :: "dict_reader_state \<Rightarrow> dict_reader_state" where
  "read_fieldnames st =
     (if dr_fieldnames st = None
      then (case reader_next st of None \<Rightarrow> st | Some (r, st') \<Rightarrow> st'\<lparr>dr_fieldnames := Some r\<rparr>)
      else st)"

definition skip_blanks ::
  "string list \<times> dict_reader_state \<Rightarrow> (string list \<times> dict_reader_state) option option" where
  "skip_blanks rst =
     while_option (\<lambda>x. case x of Some (row, st) \<Rightarrow> row = [] | None \<Rightarrow> False)
                  (\<lambda>x. case x of Some (row, st) \<Rightarrow> reader_next st | None \<Rightarrow> None)
                  (Some rst)"

datatype dr_next = DRStop | DRRow row_dict dict_reader_state | DRRaise py_exc

definition dict_reader_next :: "dict_reader_state \<Rightarrow> dr_next option" where
  "dict_reader_next st =
     (let st1 = (if dr_line_num st = 0 then read_fieldnames st else st)
      in case reader_next st1 of
           None \<Rightarrow> Some DRStop
         | Some rst \<Rightarrow>
             Option.bind (skip_blanks rst) (\<lambda>x.
               case x of
                 None \<Rightarrow> Some DRStop
               | Some (row, st3) \<Rightarrow>
                   Some (case dr_fieldnames st3 of
                           None \<Rightarrow> DRRaise TypeError
                         | Some fns \<Rightarrow> DRRow (dict_row fns row) st3)))"

partial_function (option) load_prompt_library_loop ::
  "dict_reader_state \<Rightarrow> prompt_entry list \<Rightarrow> prompt_entry list result option" where
  "load_prompt_library_loop st data =
     Option.bind (dict_reader_next st) (\<lambda>n.
       case n of
         DRStop \<Rightarrow> Some (Inr data)
       | DRRaise e \<Rightarrow> Some (Inl e)
       | DRRow row st' \<Rightarrow>
           (case load_row row of
              Inl e \<Rightarrow> Some (Inl e)
            | Inr entry \<Rightarrow> load_prompt_library_loop st' (data @ [entry])))"

definition load_prompt_library_iter :: "string list list \<Rightarrow> prompt_entry list result option" where
  "load_prompt_library_iter records = load_prompt_library_loop (dict_reader_open records) []"

lemma filter_nonblank_dropWhile:
  "filter (\<lambda>r. r \<noteq> []) (dropWhile (\<lambda>r. r = []) xs) = filter (\<lambda>r. r \<noteq> []) xs"
  by (induction xs) auto

lemma dropWhile_Cons_length:
  "dropWhile P xs = y # ys \<Longrightarrow> length ys < length xs"
  using length_dropWhile_le [of P xs] by simp

lemma reader_next_Some_iff:
  "reader_next st = Some (r, st') \<longleftrightarrow>
     (\<exists>rs. dr_rows st = r # rs \<and> st' = st\<lparr>dr_rows := rs, dr_line_num := Suc (dr_line_num st)\<rparr>)"
  by (auto simp: reader_next_def split: list.splits)

text \<open>The blank-skipping loop, unrolled: it stops at the first non-blank record, or with
  \<open>StopIteration\<close> when only blank records are left, having read every record it skipped.\<close>

lemma skip_blanks_dropWhile:
  "skip_blanks (row, st) =
     Some (case dropWhile (\<lambda>r. r = []) (row # dr_rows st) of
             [] \<Rightarrow> None
           | r # rs \<Rightarrow> Some (r, st\<lparr>dr_rows := rs,
                                  dr_line_num := dr_line_num st + (length (dr_rows st) - length rs)\<rparr>))"
proof (induction "dr_rows st" arbitrary: row st)
  case Nil
  show ?case
    unfolding skip_blanks_def
    by (subst while_option_unfold) (simp add: reader_next_def Nil [symmetric] while_option_unfold [of _ _ None])
next
  case (Cons r rs)
  let ?st' = "st\<lparr>dr_rows := rs, dr_line_num := Suc (dr_line_num st)\<rparr>"
  have rows: "dr_rows st = r # rs"
    using Cons.hyps(2) by simp
  have step: "reader_next st = Some (r, ?st')"
    using rows by (simp add: reader_next_def)
  show ?case
  proof (cases "row = []")
    case True
    have "skip_blanks (row, st) = skip_blanks (r, ?st')"
      unfolding skip_blanks_def True by (subst while_option_unfold) (simp add: step)
    moreover have "skip_blanks (r, ?st') =
        Some (case dropWhile (\<lambda>r. r = []) (r # dr_rows ?st') of
                [] \<Rightarrow> None
              | r' # rs' \<Rightarrow> Some (r', ?st'\<lparr>dr_rows := rs',
                    dr_line_num := dr_line_num ?st' + (length (dr_rows ?st') - length rs')\<rparr>))"
      by (rule Cons.hyps(1)) simp
    ultimately show ?thesis
    proof (cases "dropWhile (\<lambda>r. r = []) (r # rs)")
      case (Cons r' rs')
      moreover have "length rs' < length (r # rs)"
        using Cons by (rule dropWhile_Cons_length)
      ultimately show ?thesis
        using True rows \<open>skip_blanks (row, st) = skip_blanks (r, ?st')\<close>
          \<open>skip_blanks (r, ?st') = _\<close> by simp
    qed (use True rows in simp)
  next
    case False
    then show ?thesis
      by (simp add: skip_blanks_def while_option_unfold [of _ _ "Some (row, st)"] rows)
  qed
qed

lemma reader_next_shorter: "reader_next st = Some (r, st') \<Longrightarrow> length (dr_rows st') < length (dr_rows st)"
  by (auto simp: reader_next_Some_iff)

lemma read_fieldnames_shorter: "length (dr_rows (read_fieldnames st)) \<le> length (dr_rows st)"
  by (auto simp: read_fieldnames_def dest: reader_next_shorter split: option.split)

text \<open>\<open>__next__\<close> always returns (the blank-skipping loop stops), and a row it returns
  leaves fewer records to read.\<close>

lemma dict_reader_next_progress:
  "\<exists>n. dict_reader_next st = Some n \<and>
        (\<forall>d st'. n = DRRow d st' \<longrightarrow> length (dr_rows st') < length (dr_rows st))"
proof -
  define st1 where "st1 = (if dr_line_num st = 0 then read_fieldnames st else st)"
  have le: "length (dr_rows st1) \<le> length (dr_rows st)"
    by (simp add: st1_def read_fieldnames_shorter)
  show ?thesis
  proof (cases "reader_next st1")
    case None
    then show ?thesis
      by (simp add: dict_reader_next_def st1_def [symmetric])
  next
    case (Some rst)
    obtain row st2 where rst: "rst = (row, st2)"
      by fastforce
    have lt: "length (dr_rows st2) < length (dr_rows st1)"
      using Some rst by (simp add: reader_next_shorter)
    show ?thesis
    proof (cases "dropWhile (\<lambda>r. r = []) (row # dr_rows st2)")
      case Nil
      then show ?thesis
        using Some rst by (simp add: dict_reader_next_def st1_def [symmetric] skip_blanks_dropWhile)
    next
      case (Cons r rs)
      moreover have "length rs < length (row # dr_rows st2)"
        using Cons by (rule dropWhile_Cons_length)
      ultimately show ?thesis
        using Some rst le lt
        by (simp add: dict_reader_next_def st1_def [symmetric] skip_blanks_dropWhile split: option.split)
    qed
  qed
qed

text \<open>Once the field names are read, \<open>__next__\<close> returns the next non-blank record as a
  dict over them, or stops when only blank records are left.\<close>

lemma dict_reader_next_started:
  assumes "dr_fieldnames st = Some hdr" and "dr_line_num st \<noteq> 0"
  shows "dict_reader_next st =
           Some (case dropWhile (\<lambda>r. r = []) (dr_rows st) of
                   [] \<Rightarrow> DRStop
                 | r # rs \<Rightarrow> DRRow (dict_row hdr r)
                     (st\<lparr>dr_rows := rs, dr_line_num := dr_line_num st + (length (dr_rows st) - length rs)\<rparr>))"
proof (cases "dr_rows st")
  case Nil
  then show ?thesis
    using assms by (simp add: dict_reader_next_def reader_next_def)
next
  case (Cons row rows)
  note rows = this
  show ?thesis
  proof (cases "dropWhile (\<lambda>r. r = []) (row # rows)")
    case Nil
    then show ?thesis
      using assms rows by (simp add: dict_reader_next_def reader_next_def skip_blanks_dropWhile)
  next
    case (Cons r rs)
    moreover have "length rs < length (row # rows)"
      using Cons by (rule dropWhile_Cons_length)
    ultimately show ?thesis
      using assms rows by (simp add: dict_reader_next_def reader_next_def skip_blanks_dropWhile)
  qed
qed

text \<open>From a started reader, the loop appends the entries of the remaining non-blank
  records in order, or stops at the first record \<open>load_row\<close> rejects.\<close>

lemma load_prompt_library_loop_started:
  assumes "dr_fieldnames st = Some hdr" and "dr_line_num st \<noteq> 0"
  shows "load_prompt_library_loop st data =
           Some (map_sum id ((@) data)
                   (map_result load_row (map (dict_row hdr) (filter (\<lambda>r. r \<noteq> []) (dr_rows st)))))"
  using assms
proof (induction "length (dr_rows st)" arbitrary: st data rule: less_induct)
  case less
  show ?case
  proof (cases "dropWhile (\<lambda>r. r = []) (dr_rows st)")
    case Nil
    then have "filter (\<lambda>r. r \<noteq> []) (dr_rows st) = []"
      using filter_nonblank_dropWhile [of "dr_rows st"] by simp
    then show ?thesis
      using less.prems
      by (subst load_prompt_library_loop.simps) (simp add: dict_reader_next_started Nil)
  next
    case (Cons r rs)
    let ?st' = "st\<lparr>dr_rows := rs, dr_line_num := dr_line_num st + (length (dr_rows st) - length rs)\<rparr>"
    have "r \<noteq> []"
      using Cons by (auto simp: dropWhile_eq_Cons_conv)
    then have f: "filter (\<lambda>r. r \<noteq> []) (dr_rows st) = r # filter (\<lambda>r. r \<noteq> []) rs"
      using filter_nonblank_dropWhile [of "dr_rows st"] Cons by simp
    have "length rs < length (dr_rows st)"
      using Cons by (rule dropWhile_Cons_length)
    then have IH: "\<And>data'. load_prompt_library_loop ?st' data' =
        Some (map_sum id ((@) data') (map_result load_row (map (dict_row hdr) (filter (\<lambda>r. r \<noteq> []) rs))))"
      using less.hyps [of ?st'] less.prems by simp
    show ?thesis
      using less.prems f IH
      by (subst load_prompt_library_loop.simps) (simp add: dict_reader_next_started Cons split: sum.split)
  qed
qed

text \<open>
  C18. Termination: the loader's \<open>for row in reader\<close> loop, with the loop
  \<open>while row == []\<close> inside \<open>DictReader.__next__\<close>, ends from every reader state and
  every list of entries gathered so far.
\<close>

theorem load_prompt_library_loop_terminates:
  "load_prompt_library_loop st data \<noteq> None"
proof (induction "length (dr_rows st)" arbitrary: st data rule: less_induct)
  case less
  obtain n where n: "dict_reader_next st = Some n"
    and p: "\<And>d st'. n = DRRow d st' \<Longrightarrow> length (dr_rows st') < length (dr_rows st)"
    using dict_reader_next_progress [of st] by blast
  show ?case
  proof (cases n)
    case (DRRow d st')
    then show ?thesis
      using n less.hyps [OF p [OF DRRow]]
      by (subst load_prompt_library_loop.simps) (simp split: sum.split)
  qed (subst load_prompt_library_loop.simps, simp add: n)+
qed

text \<open>
  C19. The loader as the code runs it, iterating a \<open>csv.DictReader\<close> record by record
  and appending each entry, returns on every file exactly what the list model
  \<open>load_prompt_library\<close> (\<open>map_result load_row\<close> over \<open>dict_reader\<close>) gives: the same
  entries in the same order, or the same first \<open>KeyError\<close>.
\<close>

theorem load_prompt_library_iter_eq:
  "load_prompt_library_iter records = Some (load_prompt_library records)"
proof (cases records)
  case Nil
  then show ?thesis
    unfolding load_prompt_library_iter_def
    by (subst load_prompt_library_loop.simps)
      (simp add: dict_reader_next_def dict_reader_open_def read_fieldnames_def reader_next_def
        load_prompt_library_def)
next
  case (Cons hdr rows)
  let ?st1 = "\<lparr>dr_fieldnames = Some hdr, dr_rows = rows, dr_line_num = 1\<rparr>"
  have eq: "dict_reader_next (dict_reader_open records) = dict_reader_next ?st1"
    by (simp add: Cons dict_reader_next_def dict_reader_open_def read_fieldnames_def reader_next_def)
  have "load_prompt_library_iter records = load_prompt_library_loop ?st1 []"
    unfolding load_prompt_library_iter_def load_prompt_library_loop.simps [of "dict_reader_open records"]
      load_prompt_library_loop.simps [of ?st1] eq ..
  moreover have "map_sum id ((@) []) r = r" for r :: "prompt_entry list result"
    by (cases r) simp_all
  ultimately show ?thesis
    using load_prompt_library_loop_started [of ?st1 hdr "[]"]
    by (simp add: load_prompt_library_def Cons)
qed

end
