(* ===== verification/Spec2Isabelle.thy ===== *)
theory Spec2Isabelle
  imports Script Summary Session Concurrency CsvReader
begin

text \<open>
  \<^bold>\<open>A verification development of the AI-PBL statistics dashboard (\<open>src/app.py\<close>).\<close>

  \<^bold>\<open>The program.\<close> \<open>src/app.py\<close> is one Streamlit script, rerun from the top on every
  interaction. At module level it selects the mode (line 40), loads a sentence-embedding
  model (42), loads the prompt library from a CSV file (\<open>load_prompt_library\<close>, lines
  9--20; line 43), collects the questions (44) and encodes them (45). It then dispatches on
  the mode: the instructor view classifies the columns of an uploaded table, suggests
  project topics and exports them to Word (\<open>export_to_word\<close>, lines 22--34; view 47--78);
  the student view encodes the typed question, scores it against every library question
  with \<open>util.cos_sim\<close>, takes \<open>argmax\<close> and renders that entry (80--91); the rubric view
  sums the levels chosen for three criteria (93--111). The views share nothing but the
  module-level names; the student view is the only reader of the library and the index.

  \<^bold>\<open>Theories and what they model.\<close>
  \<^item> \<open>Prelude\<close>: Python exceptions (\<open>py_exc\<close>), fallible results
    \<open>'a result = py_exc + 'a\<close> with \<open>rbind\<close>, a \<open>for\<close> loop that stops at the first
    exception (\<open>map_result\<close>), subscription with \<open>IndexError\<close> (\<open>py_index\<close>),
    \<open>dict(zip(..))\<close> (\<open>dict_of\<close>), \<open>str\<close> of numbers and \<open>repr\<close> of strings and lists
    (\<open>py_str_nat\<close>, \<open>py_quote\<close>, \<open>py_escape\<close>, \<open>py_repr_str\<close>, \<open>py_repr_list\<close>);
    the shared lemmas about them.
  \<^item> \<open>Library\<close>: \<open>csv.DictReader\<close>'s rows (\<open>dict_row\<close>, \<open>dict_reader\<close>) over the records
    the CSV tokeniser yields, the loop body \<open>load_row\<close> and \<open>load_prompt_library\<close>;
    entries are the record \<open>prompt_entry\<close> of Python values (\<open>pyval\<close>), read by key
    with \<open>entry_get\<close>.
  \<^item> \<open>CsvReader\<close>: \<open>csv.DictReader\<close> as CPython's \<open>csv.py\<close> writes it and the loader's
    \<open>for\<close> loop over it: the reader object (\<open>dict_reader_state\<close>), \<open>next\<close> of the
    underlying reader, the \<open>fieldnames\<close> property, the blank-skipping \<open>while\<close> loop of
    \<open>__next__\<close> (\<open>skip_blanks\<close>, a \<open>while_option\<close>), \<open>__next__\<close> itself, and lines
    9--20 as the loop \<open>load_prompt_library_loop\<close> (a \<open>partial_function (option)\<close>).
  \<^item> \<open>Similarity\<close>: \<open>util.cos_sim\<close> of line 86 (\<open>dot\<close>, \<open>l2norm\<close>, \<open>normalize\<close> with
    \<open>eps = 1e-12\<close>, \<open>sim\<close>, \<open>cos_sim\<close> with its \<open>RuntimeError\<close>s) over real vectors.
  \<^item> \<open>Matcher\<close>: \<open>torch.argmax\<close> (\<open>argmax_scan\<close>, \<open>tensor_argmax\<close>) and the query of
    lines 85--88 (\<open>match_query\<close>), over any entry type and any
    embedding function: the interface the student view instantiates.
  \<^item> \<open>Rubric\<close>: the rubric view, a pure function of the select boxes and the button.
  \<^item> \<open>Instructor\<close>: the instructor view of lines 47--78 over the uploaded table (its row
    count and typed columns): the suggestions, the summary, the widgets in source order
    (\<open>instructor_page\<close>), and \<open>export_to_word\<close>, which saves the document (the list of its
    blocks) into the working directory, a map from paths to documents (\<open>files\<close>) that
    line 77 reads back (\<open>open_read\<close>) for the download button.
  \<^item> \<open>Repr\<close>, \<open>Summary\<close>: readers for what \<open>str\<close> and \<open>repr\<close> print (a numeral, a string
    literal with its escapes, a list literal; \<open>read_items\<close> terminates by the measure
    \<open>length\<close>, each item consuming input) and \<open>read_summary\<close> for the summary of line 75.
  \<^item> \<open>Script\<close>: the module-level names as the record \<open>script_globals\<close>, the statements
    that assign them as \<open>stmt\<close> with the step function \<open>exec_stmt\<close> (reading an unassigned
    name raises \<open>NameError\<close>), the student view over the globals, and \<open>run_script\<close>, one
    whole rerun, which threads the working directory. The embedding model is the parameter
    \<open>embedding_model\<close>, one model for the batch of line 45 and the query of line 85.
  \<^item> \<open>Session\<close>: a Streamlit session as a sequence of reruns: the state kept between
    reruns (widget values, working directory, last output), the user's interactions
    (\<open>event\<close>, \<open>apply_event\<close>), buttons that are pressed for one rerun only
    (\<open>release_buttons\<close>), the clearing of the widgets a rerun did not call
    (\<open>rendered\<close>, \<open>cleanup_widgets\<close>), one rerun (\<open>session_step\<close>), and the reachable
    states as an inductive predicate (\<open>reachable_session\<close>).
  \<^item> \<open>Concurrency\<close>: the exports of any number of sessions as one interleaved list of
    steps on the shared file (\<open>export_op\<close>, \<open>exec_export_op\<close>, \<open>run_export_ops\<close>):
    the save in two steps (truncate, then the whole document written), the open of line
    77, and the read of line 78; the file is the only state the sessions share.
  \<^item> This theory: properties that span the components, and the spec's scenario.

  \<^bold>\<open>What is proved.\<close> For the loader: when it raises (\<open>KeyError\<close> for the first
  missing header name), that a complete header always loads, that each field is read by its
  header position (\<open>None\<close> past the end of a short record, the last column when a name is
  repeated), that every loaded field is a string or \<open>None\<close>, that it returns the empty
  library exactly when no record follows the header, and the round trip from a table
  written under any header; that the loop of lines 9--20 over a \<open>DictReader\<close> always ends
  and computes exactly that list model. For the matcher: the scan computes the first
  maximum and refines the \<open>LEAST\<close>/\<open>Max\<close> specification of an arg-max; the query returns
  the first entry of highest score, never the later of two equal embeddings; it raises
  exactly \<open>RuntimeError\<close> on an empty or ill-shaped index and \<open>IndexError\<close> past the end of
  the library. For the script: in the source's order the module statements leave the index
  in step with the library, so no view ever meets an unbuilt index; a loader exception
  aborts every view; an empty library fails every student question. For the other views:
  the rubric total is the sum of the chosen indices and lies in \<open>[0, 12]\<close>; the
  suggestions depend only on the multiset of column classes; the exported document's
  bullets read back as the suggestions; the summary reads back as the table's shape and
  column names and is always three lines. For a session: only the export writes a file,
  every file written is an assignment document, and the rubric total is always reachable.
  For concurrent sessions: in every interleaving, an instructor downloads what the last
  write step before its read left in the file, whichever session wrote it, whole or in
  part. End to end: a student run shows the entry of the first best-matching question.

  \<^bold>\<open>Divergences from the spec\<close> (proved as theorems about the code): an empty library
  and a short record load without error; an empty library then fails on every student
  question with \<open>RuntimeError\<close>; the index is rebuilt on every rerun. Observed in the
  code and recorded in the manifest without a theorem: the empty query is ignored and a
  query of blanks is matched; a zero vector scores \<open>0\<close> (the \<open>eps\<close> clamp) rather than
  being excluded; a view's widget values are lost when the menu switches away.
  A defect of the code: exports from concurrent sessions race on one fixed file name.

  \<^bold>\<open>Bounds and termination.\<close> Every loop of the program is a loop over a finite list
  (records, questions, scores, criteria, suggestions) and is modelled by structural
  recursion (\<open>map_result\<close>, \<open>argmax_scan\<close>, \<open>add_bullets\<close>, \<open>exec_stmts\<close>), so every
  definition is total and no fuel is needed; the non-structural recursions are
  \<open>py_str_nat\<close> (on \<open>n div 10\<close>) and the reader \<open>read_items\<close> (on the length of the
  input). Two loops are kept as loops because their bound is not syntactic: the
  \<open>while row == []\<close> of \<open>DictReader.__next__\<close> (\<open>while_option\<close>) and the loader's
  \<open>for\<close> loop over the reader (\<open>partial_function (option)\<close>); both are proved to end,
  every iteration consuming a record. A session is any finite sequence of events; the
  concurrency model covers any finite interleaving of any number of sessions' exports.

  \<^bold>\<open>Not modelled.\<close> Streamlit rendering beyond the widgets' texts (page config, titles,
  headers), file I/O and the CSV tokeniser, pandas' parsing (the table is its row count
  and typed columns, so the errors of \<open>pd.read_csv\<close> at line 52 are absent; the preview is
  its row count and column names) and chart drawing, the \<open>.docx\<close> encoding (a document is
  its list of blocks; I/O errors of \<open>doc.save\<close> are absent), and the embedding model
  itself (a parameter). Floats are reals: float32 rounding is not modelled, so ties are
  exact ties, and no theorem states a property of a score's value (its range, a vector's
  score against itself, scale invariance): such facts are exact over reals and not in
  float32, and HOL's \<open>x / 0 = 0\<close> would hide the role of the \<open>eps\<close> clamp. Strings are byte lists:
  emoji are written as their UTF-8 bytes, and \<open>repr\<close> leaves every byte from \<open>0x80\<close> as
  it is (Python escapes some non-printable non-ASCII characters).

  \<^bold>\<open>Plan for further work.\<close> The summary round trip through the saved document in a
  session.
\<close>

text \<open>
  The scenario of the spec: a library of a t-test entry and a chi-square entry, and a model
  that places the query ``comparing averages between two groups'' in the direction of the
  t-test question.
\<close>

definition scenario_ttest :: "string \<Rightarrow> string" where
  "scenario_ttest k =
     (if k = ''question'' then ''How do I compare two means?''
      else if k = ''method'' then ''t-test''
      else if k = ''explanation'' then ''Compares the means of two groups.''
      else ''ttest_ind(a, b)'')"

definition scenario_chisq :: "string \<Rightarrow> string" where
  "scenario_chisq k =
     (if k = ''question'' then ''How do I test independence of categories?''
      else if k = ''method'' then ''chi-square test''
      else if k = ''explanation'' then ''Tests association between two categorical variables.''
      else ''chi2_contingency(table)'')"

definition scenario_model :: embedding_model where
  "scenario_model =
     \<lparr>encode_str = (\<lambda>s. if s = ''How do I test independence of categories?'' then [0, 1] else [1, 0]),
      encode_nonstr = (\<lambda>v. Inl TypeError)\<rparr>"

definition scenario_inputs :: ui_inputs where
  "scenario_inputs =
     \<lparr>in_mode = StudentMode,
      in_library_csv = required_fields # map (\<lambda>src. map src required_fields) [scenario_ttest, scenario_chisq],
      in_upload = None, in_export_button = False,
      in_user_input = ''comparing averages between two groups'',
      in_rubric_choice = (\<lambda>k. selectbox_default), in_rubric_button = False\<rparr>"

lemma library_entries_encoded:
  "map_result (encode_item m) (map question (map entry_of_source srcs)) =
     Inr (map (\<lambda>src. encode_str m (src ''question'')) srcs)"
  by (induction srcs) (simp_all add: entry_of_source_def encode_item_def)

lemma render_entry_of_source:
  "render_match (entry_of_source src) =
     Inr [WSuccess ([CHR 0xF0, CHR 0x9F, CHR 0x93, CHR 0x98] @ '' Suggested Method: '' @ src ''method''),
          WMarkdown (''**'' @ [CHR 0xF0, CHR 0x9F, CHR 0xA7, CHR 0xA0] @ '' Explanation:** '' @ src ''explanation''),
          WCode (src ''code'') ''python'']"
  by (simp add: render_match_Inr entry_of_source_def)

text \<open>
  C1. End to end: a run in the student mode, on a library file written under any header
  of distinct names holding the four fields (one record per source, at least one), with an
  embedding model of constant width and a non-empty question, shows the method,
  explanation and code of source \<open>i\<close>, where \<open>i\<close> is the first source whose question is
  most similar to the student's.
\<close>

theorem student_run_shows_best_entry:
  assumes "distinct hdr" and "set required_fields \<subseteq> set hdr" and "srcs \<noteq> []"
    and "\<And>s. length (encode_str m s) = d"
    and "in_mode inp = StudentMode" and "in_library_csv inp = hdr # map (\<lambda>src. map src hdr) srcs"
    and "in_user_input inp \<noteq> []"
  shows "\<exists>i. is_first_max (map (\<lambda>src. sim (encode_str m (in_user_input inp)) (encode_str m (src ''question''))) srcs) i \<and>
           run_script m fs inp =
             Inr (StudentOut
               [WSuccess ([CHR 0xF0, CHR 0x9F, CHR 0x93, CHR 0x98] @ '' Suggested Method: '' @ (srcs ! i) ''method''),
                WMarkdown (''**'' @ [CHR 0xF0, CHR 0x9F, CHR 0xA7, CHR 0xA0] @ '' Explanation:** '' @ (srcs ! i) ''explanation''),
                WCode ((srcs ! i) ''code'') ''python''], fs)"
proof -
  let ?lib = "map entry_of_source srcs"
  let ?embs = "map (\<lambda>src. encode_str m (src ''question'')) srcs"
  let ?u = "in_user_input inp"
  let ?g = "\<lparr>g_menu = Some StudentMode, g_prompt_library = Some ?lib, g_questions = Some (map question ?lib),
           g_question_embeddings = Some ?embs\<rparr>"
  have init: "exec_stmts m init_globals (module_stmts (in_mode inp) (in_library_csv inp)) = Inr ?g"
    using assms(5,6) load_prompt_library_table [OF assms(1,2)] library_entries_encoded
    by (simp add: module_init_Inr_iff)
  then have run: "run_script m fs inp = map_sum id (\<lambda>ws. (StudentOut ws, fs)) (student_view m ?g ?u)"
    by (simp add: run_script_def)
  obtain i where i: "is_first_max (map (sim (encode_str m ?u)) ?embs) i"
    using is_first_max_exists assms(3) by (metis Nil_is_map_conv)
  then have len: "i < length srcs"
    by (simp add: is_first_max_def)
  moreover have "list_all (\<lambda>v. length v = length (encode_str m ?u)) ?embs"
    using assms(4) by (simp add: list_all_iff)
  ultimately have "match_query (encode_str m) ?lib ?embs ?u = Inr (i, ?lib ! i)"
    using i assms(3) by (simp add: match_query_Inr_iff)
  then have "student_view m ?g ?u = render_match (entry_of_source (srcs ! i))"
    using assms(7) len by (simp add: student_view_consistent)
  then have "run_script m fs inp =
      Inr (StudentOut
        [WSuccess ([CHR 0xF0, CHR 0x9F, CHR 0x93, CHR 0x98] @ '' Suggested Method: '' @ (srcs ! i) ''method''),
         WMarkdown (''**'' @ [CHR 0xF0, CHR 0x9F, CHR 0xA7, CHR 0xA0] @ '' Explanation:** '' @ (srcs ! i) ''explanation''),
         WCode ((srcs ! i) ''code'') ''python''], fs)"
    using run by (simp only: render_entry_of_source map_sum.simps id_apply)
  moreover have "is_first_max (map (\<lambda>src. sim (encode_str m ?u) (encode_str m (src ''question''))) srcs) i"
    using i by (simp add: comp_def)
  ultimately show ?thesis by blast
qed

text \<open>
  C14. A library file with a header and no data records loads without error, and
  the student view then raises \<open>RuntimeError\<close> on every non-empty question, while the
  rubric view still works: the empty library surfaces at query time, not at start-up.
\<close>

theorem run_script_empty_library:
  assumes "in_library_csv inp = [hdr]" and "in_user_input inp \<noteq> []"
  shows "(in_mode inp = StudentMode \<longrightarrow> run_script m fs inp = Inl RuntimeError) \<and>
         (in_mode inp = RubricMode \<longrightarrow>
            run_script m fs inp =
              map_sum id (\<lambda>t. (RubricOut t, fs)) (rubric_view (in_rubric_choice inp) (in_rubric_button inp)))"
proof -
  have init: "exec_stmts m init_globals (module_stmts (in_mode inp) (in_library_csv inp)) =
      Inr \<lparr>g_menu = Some (in_mode inp), g_prompt_library = Some [], g_questions = Some [],
           g_question_embeddings = Some []\<rparr>"
    using assms(1) by (simp add: module_init_Inr_iff load_prompt_library_def)
  have sv: "\<And>mn. student_view m \<lparr>g_menu = mn, g_prompt_library = Some [], g_questions = Some [],
           g_question_embeddings = Some []\<rparr> (in_user_input inp) = Inl RuntimeError"
    using assms(2) by (simp add: student_view_consistent match_query_def cos_sim_def)
  show ?thesis
    unfolding run_script_def init using sv by (cases "in_mode inp") simp_all
qed

theorem run_script_empty_library_witness:
  "in_library_csv (scenario_inputs\<lparr>in_library_csv := [required_fields]\<rparr>) = [required_fields] \<and>
   in_user_input (scenario_inputs\<lparr>in_library_csv := [required_fields]\<rparr>) \<noteq> [] \<and>
   run_script scenario_model Map.empty (scenario_inputs\<lparr>in_library_csv := [required_fields]\<rparr>) = Inl RuntimeError \<and>
   run_script scenario_model Map.empty (scenario_inputs\<lparr>in_library_csv := [required_fields], in_mode := RubricMode,
      in_rubric_button := True\<rparr>) = Inr (RubricOut (Some 6), Map.empty)"
proof -
  have a: "in_library_csv (scenario_inputs\<lparr>in_library_csv := [required_fields]\<rparr>) = [required_fields]"
    "in_user_input (scenario_inputs\<lparr>in_library_csv := [required_fields]\<rparr>) \<noteq> []"
    by (simp_all add: scenario_inputs_def)
  have b: "in_library_csv (scenario_inputs\<lparr>in_library_csv := [required_fields], in_mode := RubricMode,
      in_rubric_button := True\<rparr>) = [required_fields]"
    "in_user_input (scenario_inputs\<lparr>in_library_csv := [required_fields], in_mode := RubricMode,
      in_rubric_button := True\<rparr>) \<noteq> []"
    by (simp_all add: scenario_inputs_def)
  have r: "rubric_view (\<lambda>k. selectbox_default) True = Inr (Some 6)"
    by (simp add: rubric_view_def rubric_scores_def rubric_criteria_def rubric_levels_def
        selectbox_def selectbox_default_def rubric_total_def str_first_def py_int_digit_def)
  show ?thesis
    using a run_script_empty_library [OF a, of scenario_model Map.empty]
      run_script_empty_library [OF b, of scenario_model Map.empty] r
    by (simp add: scenario_inputs_def)
qed

theorem student_run_shows_best_entry_witness:
  "distinct required_fields \<and> set required_fields \<subseteq> set required_fields \<and>
   [scenario_ttest, scenario_chisq] \<noteq> [] \<and> (\<forall>s. length (encode_str scenario_model s) = 2) \<and>
   in_mode scenario_inputs = StudentMode \<and>
   in_library_csv scenario_inputs = required_fields # map (\<lambda>src. map src required_fields) [scenario_ttest, scenario_chisq] \<and>
   in_user_input scenario_inputs \<noteq> [] \<and>
   run_script scenario_model Map.empty scenario_inputs =
     Inr (StudentOut
       [WSuccess ([CHR 0xF0, CHR 0x9F, CHR 0x93, CHR 0x98] @ '' Suggested Method: '' @ ''t-test''),
        WMarkdown (''**'' @ [CHR 0xF0, CHR 0x9F, CHR 0xA7, CHR 0xA0] @ '' Explanation:** '' @
          ''Compares the means of two groups.''),
        WCode ''ttest_ind(a, b)'' ''python''], Map.empty)"
proof -
  have h: "distinct required_fields" "set required_fields \<subseteq> set required_fields"
    "[scenario_ttest, scenario_chisq] \<noteq> []" "\<And>s. length (encode_str scenario_model s) = 2"
    "in_mode scenario_inputs = StudentMode"
    "in_library_csv scenario_inputs = required_fields # map (\<lambda>src. map src required_fields) [scenario_ttest, scenario_chisq]"
    "in_user_input scenario_inputs \<noteq> []"
    by (simp_all add: required_fields_def scenario_model_def scenario_inputs_def)
  obtain i where
    i: "is_first_max (map (\<lambda>src. sim (encode_str scenario_model (in_user_input scenario_inputs))
          (encode_str scenario_model (src ''question''))) [scenario_ttest, scenario_chisq]) i"
    and r: "run_script scenario_model Map.empty scenario_inputs =
      Inr (StudentOut
        [WSuccess ([CHR 0xF0, CHR 0x9F, CHR 0x93, CHR 0x98] @ '' Suggested Method: '' @ ([scenario_ttest, scenario_chisq] ! i) ''method''),
         WMarkdown (''**'' @ [CHR 0xF0, CHR 0x9F, CHR 0xA7, CHR 0xA0] @ '' Explanation:** '' @
           ([scenario_ttest, scenario_chisq] ! i) ''explanation''),
         WCode (([scenario_ttest, scenario_chisq] ! i) ''code'') ''python''], Map.empty)"
    using student_run_shows_best_entry [OF h, of Map.empty] by blast
  have "sim [1, 0] [1, 0] = 1" "sim [1, 0] [0, 1] = 0"
    by (simp_all add: sim_formula l2norm_def normalize_eps_def)
  then have "is_first_max [1, 0] i"
    using i by (simp add: scenario_model_def scenario_inputs_def scenario_ttest_def scenario_chisq_def)
  then have "i = 0"
    by (auto simp: is_first_max_def less_Suc_eq numeral_2_eq_2)
  with r h show ?thesis
    by (simp add: scenario_ttest_def)
qed

end
